theory Spec2Isabelle
  imports Main
begin

section \<open>JavaScript values\<close>

text \<open>
  A field of a JavaScript object either is missing (\<open>undefined\<close>), is \<open>null\<close>, or carries a
  value. The three cases are kept apart because the ODM treats them differently: a key whose
  value is \<open>undefined\<close> is skipped when a document is constructed (so a schema default
  applies), \<open>null\<close> is stored as given, and both fail a \<open>required\<close> validator.

  Fields are typed as the schemas of the source declare them: \<open>String\<close> paths carry strings,
  \<open>Number\<close> paths carry numbers (amounts, written as integers: they are only compared with
  zero and copied), \<open>Mixed\<close> paths carry whatever the callers put there. A value of another
  JSON type in such a field (a number where a transaction id is expected, say) is outside
  the model.
\<close>

datatype 'a js = Undefined | Null | Val 'a

text \<open>Truthiness, as \<open>if (x)\<close>, \<open>!x\<close> and \<open>x || y\<close> use it: the empty string and the
  number zero are falsy, as are \<open>undefined\<close> and \<open>null\<close>.\<close>

fun truthy_str :: "string js \<Rightarrow> bool" where
  "truthy_str (Val s) = (s \<noteq> [])"
| "truthy_str Undefined = False"
| "truthy_str Null = False"

fun truthy_num :: "int js \<Rightarrow> bool" where
  "truthy_num (Val n) = (n \<noteq> 0)"
| "truthy_num Undefined = False"
| "truthy_num Null = False"

definition or_string :: "string js \<Rightarrow> string js \<Rightarrow> string js" where
  "or_string a b = (if truthy_str a then a else b)"

definition or_number :: "int js \<Rightarrow> int js \<Rightarrow> int js" where
  "or_number a b = (if truthy_num a then a else b)"

text \<open>
  A time as a payload or the vendor writes it: the text, and the time value \<open>new Date\<close>
  reads from it (\<open>None\<close> when it reads none: the result is then an \<open>Invalid Date\<close>). How a
  text is read is the runtime's business, so the reading comes with the text.
\<close>

datatype date_text = DateText string "nat option"

fun truthy_text :: "date_text js \<Rightarrow> bool" where
  "truthy_text (Val (DateText s r)) = (s \<noteq> [])"
| "truthy_text Undefined = False"
| "truthy_text Null = False"

text \<open>A \<open>Date\<close> object: built from a value of the payload (\<open>new Date(x)\<close>) or read from
  the clock (\<open>new Date()\<close>). A \<open>Date\<close> object is always truthy; a \<open>Date\<close> path
  of a schema accepts it unless it is an \<open>Invalid Date\<close>.\<close>

datatype jsdate = DateOf date_text | DateNow nat

fun valid_date :: "jsdate \<Rightarrow> bool" where
  "valid_date (DateNow t) = True"
| "valid_date (DateOf (DateText s r)) = (r \<noteq> None)"

text \<open>
  \<open>String.prototype.trim\<close>, on the white space of ASCII (tab, line feed, vertical tab,
  form feed, carriage return, space); the strings of the model are ASCII. A \<open>String\<close> path declared with \<open>trim: true\<close> trims
  what is assigned to it, and what a query filter compares it with.
\<close>

definition is_space :: "char \<Rightarrow> bool" where
  "is_space c = (c \<in> set [CHR 0x09, CHR 0x0A, CHR 0x0B, CHR 0x0C, CHR 0x0D, CHR 0x20])"

definition trim :: "string \<Rightarrow> string" where
  "trim s = rev (dropWhile is_space (rev (dropWhile is_space s)))"

fun trimmed :: "string js \<Rightarrow> string js" where
  "trimmed (Val s) = Val (trim s)"
| "trimmed Undefined = Undefined"
| "trimmed Null = Null"

text \<open>Interpolation of a value into a template string.\<close>

fun interpolate :: "string js \<Rightarrow> string" where
  "interpolate (Val s) = s"
| "interpolate Undefined = ''undefined''"
| "interpolate Null = ''null''"

section \<open>Errors\<close>

text \<open>
  The exceptions of the modelled code. \<open>ValidationError\<close> is what \<open>save()\<close> rejects with when
  a schema validator fails; it names the model and the paths that failed. Of its message
  only the beginning is modelled, the model's name and ``validation failed'' (the ODM
  appends one clause per path, with the value that failed). \<open>TypeError\<close> is the
  runtime's, for a call of something that is not a function and for reading a property of
  \<open>undefined\<close>.
\<close>

datatype error =
    TypeError string
  | InvalidPayloadFormat
  | NoOrderIdentifier
  | OrderNotFound "string js" "string js"
  | ValidationError string "string list"

fun message :: "error \<Rightarrow> string" where
  "message (TypeError m) = m"
| "message InvalidPayloadFormat = ''Invalid webhook payload format''"
| "message NoOrderIdentifier = ''No order identifier found in webhook payload''"
| "message (OrderNotFound c r) =
     ''Order not found for identifiers: custom_order_id='' @ interpolate c @
     '', collect_request_id='' @ interpolate r"
| "message (ValidationError m ps) = m @ '' validation failed''"

section \<open>The parsed webhook observation\<close>

text \<open>The object \<open>parseWebhookPayload\<close> builds (controllers/webhook controller).\<close>

record parsed =
  p_custom_order_id :: "string js"
  p_collect_request_id :: "string js"
  p_transaction_id :: "string js"
  p_order_amount :: "int js"
  p_transaction_amount :: "int js"
  p_payment_mode :: "string js"
  p_payment_details :: "string js"
  p_bank_reference :: "string js"
  p_payment_message :: "string js"
  p_status :: "string js"
  p_error_message :: "string js"
  p_payment_time :: "jsdate js"
  p_gateway :: "string js"

text \<open>The object the vendor answers a status request with (\<open>vendorClient.getCollectRequest\<close>
  returns the body of the response).\<close>

record vendor_collect =
  vc_order_amount :: "int js"
  vc_transaction_amount :: "int js"
  vc_payment_mode :: "string js"
  vc_payment_details :: "string js"
  vc_bank_reference :: "string js"
  vc_payment_message :: "string js"
  vc_status :: "string js"
  vc_error_message :: "string js"
  vc_payment_time :: "date_text js"
  vc_transaction_id :: "string js"
  vc_gateway :: "string js"

datatype vendor_data = FromWebhook parsed | FromVendor vendor_collect

section \<open>The status ledger (models/OrderStatus.js)\<close>

text \<open>
  A document of the \<open>OrderStatus\<close> collection. \<open>os_collect_id\<close> is the \<open>ObjectId\<close> of the
  owning order. The collection is the list of its documents in insertion order; \<open>findOne\<close>
  without a sort returns the first match. The \<open>createdAt\<close>/\<open>updatedAt\<close> stamps that the
  ODM maintains are not part of the model. The \<open>String\<close> paths other than \<open>status\<close> are
  declared with \<open>trim: true\<close> and hold trimmed strings; \<open>payment_details\<close> is a \<open>Mixed\<close>
  path and holds what it is given.
\<close>

record order_status =
  os_collect_id :: nat
  os_order_amount :: "int js"
  os_transaction_amount :: "int js"
  os_payment_mode :: "string js"
  os_payment_details :: "string js"
  os_bank_reference :: "string js"
  os_payment_message :: "string js"
  os_status :: "string js"
  os_error_message :: "string js"
  os_payment_time :: "jsdate js"
  os_transaction_id :: "string js"
  os_gateway :: "string js"
  os_vendor_data :: "vendor_data js"

text \<open>The \<open>statusData\<close> object the callers of \<open>upsertStatus\<close> build: twelve keys, each
  always present, any of them possibly \<open>undefined\<close> or \<open>null\<close>. \<open>vendor_data\<close> is the
  parsed observation on the webhook path, the vendor's answer on the polling path.\<close>

record status_data =
  sd_order_amount :: "int js"
  sd_transaction_amount :: "int js"
  sd_payment_mode :: "string js"
  sd_payment_details :: "string js"
  sd_bank_reference :: "string js"
  sd_payment_message :: "string js"
  sd_status :: "string js"
  sd_error_message :: "string js"
  sd_payment_time :: "jsdate js"
  sd_transaction_id :: "string js"
  sd_gateway :: "string js"
  sd_vendor_data :: "vendor_data js"

definition status_enum :: "string list" where
  "status_enum = [''created'', ''pending'', ''completed'', ''failed'', ''cancelled'', ''refunded'']"

text \<open>The specification's partition of the enumeration (its section 3); \<open>isPending\<close> is the
  method of the schema with the same non-terminal set.\<close>

definition terminal :: "string \<Rightarrow> bool" where
  "terminal s = (s \<in> set [''completed'', ''failed'', ''cancelled'', ''refunded''])"

definition isPending :: "order_status \<Rightarrow> bool" where
  "isPending d = (os_status d \<in> set [Val ''created'', Val ''pending''])"

text \<open>
  What \<open>save()\<close> checks, by the schema: \<open>order_amount\<close> is required and at least 0,
  \<open>transaction_amount\<close> is at least 0 when set, \<open>status\<close> is required and one of the
  enumeration, \<open>payment_time\<close>, when set, is a date (an \<open>Invalid Date\<close> cannot be cast).
  The result lists the paths that fail.
\<close>

definition invalid_paths :: "order_status \<Rightarrow> string list" where
  "invalid_paths d =
     (case os_order_amount d of Val n \<Rightarrow> (if n < 0 then [''order_amount''] else [])
        | _ \<Rightarrow> [''order_amount'']) @
     (case os_transaction_amount d of Val n \<Rightarrow> (if n < 0 then [''transaction_amount''] else [])
        | _ \<Rightarrow> []) @
     (case os_status d of Val s \<Rightarrow> (if s \<in> set status_enum then [] else [''status''])
        | _ \<Rightarrow> [''status'']) @
     (case os_payment_time d of Val t \<Rightarrow> (if valid_date t then [] else [''payment_time''])
        | _ \<Rightarrow> [])"

text \<open>\<open>new this({collect_id: orderId, ...statusData})\<close>: keys whose value is \<open>undefined\<close>
  are skipped, so the defaults of \<open>status\<close> and \<open>gateway\<close> stay; strings are trimmed
  where the schema says so.\<close>

definition new_OrderStatus :: "nat \<Rightarrow> status_data \<Rightarrow> order_status" where
  "new_OrderStatus orderId sd =
     \<lparr> os_collect_id = orderId,
       os_order_amount = sd_order_amount sd,
       os_transaction_amount = sd_transaction_amount sd,
       os_payment_mode = trimmed (sd_payment_mode sd),
       os_payment_details = sd_payment_details sd,
       os_bank_reference = trimmed (sd_bank_reference sd),
       os_payment_message = trimmed (sd_payment_message sd),
       os_status = (if sd_status sd = Undefined then Val ''created'' else sd_status sd),
       os_error_message = trimmed (sd_error_message sd),
       os_payment_time = sd_payment_time sd,
       os_transaction_id = trimmed (sd_transaction_id sd),
       os_gateway = (if sd_gateway sd = Undefined then Val ''edviron''
                     else trimmed (sd_gateway sd)),
       os_vendor_data = sd_vendor_data sd \<rparr>"

text \<open>\<open>Object.assign(existingStatus, statusData)\<close>: every key of \<open>statusData\<close> is written,
  an \<open>undefined\<close> value unsets the path; strings are trimmed where the schema says so.\<close>

definition assign :: "order_status \<Rightarrow> status_data \<Rightarrow> order_status" where
  "assign d sd =
     d\<lparr> os_order_amount := sd_order_amount sd,
        os_transaction_amount := sd_transaction_amount sd,
        os_payment_mode := trimmed (sd_payment_mode sd),
        os_payment_details := sd_payment_details sd,
        os_bank_reference := trimmed (sd_bank_reference sd),
        os_payment_message := trimmed (sd_payment_message sd),
        os_status := sd_status sd,
        os_error_message := trimmed (sd_error_message sd),
        os_payment_time := sd_payment_time sd,
        os_transaction_id := trimmed (sd_transaction_id sd),
        os_gateway := trimmed (sd_gateway sd),
        os_vendor_data := sd_vendor_data sd \<rparr>"

text \<open>The filter \<open>{collect_id: orderId, transaction_id: t}\<close>: the transaction id asked for
  is trimmed as the stored ones are.\<close>

definition same_transaction :: "nat \<Rightarrow> string js \<Rightarrow> order_status \<Rightarrow> bool" where
  "same_transaction orderId t d = (os_collect_id d = orderId \<and> os_transaction_id d = trimmed t)"

text \<open>
  \<open>save()\<close> of a document that was loaded and changed writes the paths that were modified,
  those whose value differs from the loaded one, into the stored document, and leaves its
  other paths as they are stored.
\<close>

definition write_back :: "order_status \<Rightarrow> order_status \<Rightarrow> order_status \<Rightarrow> order_status" where
  "write_back loaded changed stored =
     stored\<lparr>
       os_order_amount :=
         (if os_order_amount changed = os_order_amount loaded
          then os_order_amount stored else os_order_amount changed),
       os_transaction_amount :=
         (if os_transaction_amount changed = os_transaction_amount loaded
          then os_transaction_amount stored else os_transaction_amount changed),
       os_payment_mode :=
         (if os_payment_mode changed = os_payment_mode loaded
          then os_payment_mode stored else os_payment_mode changed),
       os_payment_details :=
         (if os_payment_details changed = os_payment_details loaded
          then os_payment_details stored else os_payment_details changed),
       os_bank_reference :=
         (if os_bank_reference changed = os_bank_reference loaded
          then os_bank_reference stored else os_bank_reference changed),
       os_payment_message :=
         (if os_payment_message changed = os_payment_message loaded
          then os_payment_message stored else os_payment_message changed),
       os_status :=
         (if os_status changed = os_status loaded
          then os_status stored else os_status changed),
       os_error_message :=
         (if os_error_message changed = os_error_message loaded
          then os_error_message stored else os_error_message changed),
       os_payment_time :=
         (if os_payment_time changed = os_payment_time loaded
          then os_payment_time stored else os_payment_time changed),
       os_transaction_id :=
         (if os_transaction_id changed = os_transaction_id loaded
          then os_transaction_id stored else os_transaction_id changed),
       os_gateway :=
         (if os_gateway changed = os_gateway loaded
          then os_gateway stored else os_gateway changed),
       os_vendor_data :=
         (if os_vendor_data changed = os_vendor_data loaded
          then os_vendor_data stored else os_vendor_data changed)\<rparr>"

text \<open>The stored document is the first one the filter finds.\<close>

fun update_first :: "('a \<Rightarrow> bool) \<Rightarrow> ('a \<Rightarrow> 'a) \<Rightarrow> 'a list \<Rightarrow> 'a list" where
  "update_first P f [] = []"
| "update_first P f (x # xs) = (if P x then f x # xs else x # update_first P f xs)"

text \<open>When nothing has written to the stored document since it was loaded, the changed
  document takes its place.\<close>

fun replace_first :: "('a \<Rightarrow> bool) \<Rightarrow> 'a \<Rightarrow> 'a list \<Rightarrow> 'a list" where
  "replace_first P y [] = []"
| "replace_first P y (x # xs) = (if P x then y # xs else x # replace_first P y xs)"

definition save_existing ::
  "order_status list \<Rightarrow> (order_status \<Rightarrow> bool) \<Rightarrow> order_status \<Rightarrow> order_status
     \<Rightarrow> error + order_status \<times> order_status list" where
  "save_existing db P loaded d =
     (case invalid_paths d of
        [] \<Rightarrow> Inr (d, update_first P (write_back loaded d) db)
      | ps \<Rightarrow> Inl (ValidationError ''OrderStatus'' ps))"

definition save_new ::
  "order_status list \<Rightarrow> order_status \<Rightarrow> error + order_status \<times> order_status list" where
  "save_new db d =
     (case invalid_paths d of
        [] \<Rightarrow> Inr (d, db @ [d])
      | ps \<Rightarrow> Inl (ValidationError ''OrderStatus'' ps))"

text \<open>
  \<open>upsertStatus(orderId, statusData)\<close> has two steps with the database, each awaited: the
  lookup of \<open>existingStatus\<close>, and the \<open>save()\<close> of the document found or of a new one.
\<close>

definition find_existing :: "order_status list \<Rightarrow> nat \<Rightarrow> status_data \<Rightarrow> order_status option" where
  "find_existing db orderId statusData =
     (if truthy_str (sd_transaction_id statusData)
      then find (same_transaction orderId (sd_transaction_id statusData)) db
      else None)"

definition save_status ::
  "order_status list \<Rightarrow> nat \<Rightarrow> status_data \<Rightarrow> order_status option
     \<Rightarrow> error + order_status \<times> order_status list" where
  "save_status db orderId statusData existing =
     (case existing of
        Some existingStatus \<Rightarrow>
          save_existing db (same_transaction orderId (sd_transaction_id statusData))
            existingStatus (assign existingStatus statusData)
      | None \<Rightarrow> save_new db (new_OrderStatus orderId statusData))"

text \<open>
  One call of \<open>upsertStatus\<close> with nothing else writing in between. The result is the
  saved document together with the collection after the write, or the error \<open>save()\<close>
  rejected with (the collection is then as it was).
\<close>

definition upsertStatus ::
  "order_status list \<Rightarrow> nat \<Rightarrow> status_data \<Rightarrow> error + order_status \<times> order_status list" where
  "upsertStatus db orderId statusData =
     save_status db orderId statusData (find_existing db orderId statusData)"

text \<open>
  Two calls in flight at once, in the order of events in which both lookups are answered
  before either write: the results of the two calls, the second with the collection after
  both.
\<close>

definition upsertStatus_interleaved ::
  "order_status list \<Rightarrow> nat \<Rightarrow> status_data \<Rightarrow> status_data
     \<Rightarrow> (error + order_status \<times> order_status list) \<times> (error + order_status \<times> order_status list)" where
  "upsertStatus_interleaved db orderId sd1 sd2 =
     (let existing1 = find_existing db orderId sd1;
          existing2 = find_existing db orderId sd2;
          r1 = save_status db orderId sd1 existing1;
          db1 = (case r1 of Inr (d, db') \<Rightarrow> db' | Inl e \<Rightarrow> db)
      in (r1, save_status db1 orderId sd2 existing2))"

text \<open>The documents of one order that the filter finds for a given transaction id.\<close>

definition entries_for :: "order_status list \<Rightarrow> nat \<Rightarrow> string \<Rightarrow> order_status list" where
  "entries_for db orderId t = filter (same_transaction orderId (Val t)) db"

text \<open>The merge keys of a collection: order and transaction id of every document that
  carries a transaction id (a truthy one: not the empty string).\<close>

definition ledger_keys :: "order_status list \<Rightarrow> (nat \<times> string js) list" where
  "ledger_keys db =
     map (\<lambda>d. (os_collect_id d, os_transaction_id d))
       (filter (\<lambda>d. truthy_str (os_transaction_id d)) db)"

section \<open>Orders (models/Order.js)\<close>

text \<open>
  A document of the \<open>Order\<close> collection, in the schema the controllers use (the one with
  \<open>custom_order_id\<close>, \<open>status\<close> and \<open>updateStatus\<close>). Stored orders are taken to satisfy the
  schema; \<open>custom_order_id\<close> is required, \<open>collect_request_id\<close> is optional, both are
  declared with \<open>trim: true\<close>.
\<close>

record order =
  o_id :: nat
  o_school_id :: string
  o_trustee_id :: "string js"
  o_student_name :: string
  o_student_id :: string
  o_student_email :: string
  o_gateway_name :: string
  o_custom_order_id :: string
  o_collect_request_id :: "string js"
  o_amount :: int
  o_callback_url :: string
  o_status :: string
  o_vendor_response :: "string js"

definition order_status_enum :: "string list" where
  "order_status_enum = [''created'', ''pending'', ''completed'', ''failed'', ''cancelled'']"

text \<open>The two lookups; the id asked for is trimmed, as the schema has it for the path.\<close>

definition findByCustomOrderId :: "order list \<Rightarrow> string \<Rightarrow> order option" where
  "findByCustomOrderId os customOrderId =
     find (\<lambda>x. o_custom_order_id x = trim customOrderId) os"

text \<open>\<open>Order.findOne({ collect_request_id: ... })\<close>.\<close>

definition findOne_collect_request_id :: "order list \<Rightarrow> string \<Rightarrow> order option" where
  "findOne_collect_request_id os r = find (\<lambda>x. o_collect_request_id x = Val (trim r)) os"

text \<open>\<open>save()\<close> of a document that is already stored writes it over the stored document
  with the same \<open>_id\<close>.\<close>

definition save_order :: "order list \<Rightarrow> order \<Rightarrow> order list" where
  "save_order os d = map (\<lambda>x. if o_id x = o_id d then d else x) os"

text \<open>\<open>order.updateStatus(status)\<close> (the second argument is never passed): the status is
  set and the order saved; the enumeration of \<open>Order.status\<close> has no \<open>refunded\<close>.\<close>

definition updateStatus :: "order list \<Rightarrow> order \<Rightarrow> string \<Rightarrow> error + order list" where
  "updateStatus os this status =
     (if status \<in> set order_status_enum
      then Inr (save_order os (this\<lparr>o_status := status\<rparr>))
      else Inl (ValidationError ''Order'' [''status'']))"

section \<open>Webhook payloads\<close>

text \<open>
  The body of a webhook request after JSON parsing: the nested shape (\<open>order_info\<close>,
  \<open>payment_info\<close>), the flat shape (the same fields at the root), or both. Fields are typed
  as the interface gives them. \<open>order_info.order_id\<close> alone is allowed to be a number as
  well as a string: it is the one field a string method is called on.
\<close>

datatype json_id = IdString string | IdNumber int

fun truthy_id :: "json_id js \<Rightarrow> bool" where
  "truthy_id (Val (IdString s)) = (s \<noteq> [])"
| "truthy_id (Val (IdNumber n)) = (n \<noteq> 0)"
| "truthy_id Undefined = False"
| "truthy_id Null = False"

record order_info =
  oi_order_id :: "json_id js"
  oi_custom_order_id :: "string js"

record payment_info =
  pi_order_amount :: "int js"
  pi_transaction_amount :: "int js"
  pi_amount :: "int js"
  pi_payment_mode :: "string js"
  pi_payment_details :: "string js"
  pi_bank_reference :: "string js"
  pi_payment_message :: "string js"
  pi_message :: "string js"
  pi_status :: "string js"
  pi_error_message :: "string js"
  pi_gateway :: "string js"
  pi_payment_time :: "date_text js"
  pi_transaction_id :: "string js"

record payload =
  pl_order_info :: "order_info js"
  pl_payment_info :: "payment_info js"
  pl_custom_order_id :: "string js"
  pl_collect_request_id :: "string js"
  pl_transaction_id :: "string js"
  pl_order_amount :: "int js"
  pl_transaction_amount :: "int js"
  pl_amount :: "int js"
  pl_payment_mode :: "string js"
  pl_payment_details :: "string js"
  pl_bank_reference :: "string js"
  pl_payment_message :: "string js"
  pl_message :: "string js"
  pl_status :: "string js"
  pl_error_message :: "string js"
  pl_gateway :: "string js"
  pl_payment_time :: "date_text js"

text \<open>An object is truthy, \<open>undefined\<close> and \<open>null\<close> are not.\<close>

fun present :: "'a js \<Rightarrow> bool" where
  "present (Val x) = True"
| "present Undefined = False"
| "present Null = False"

text \<open>\<open>String.prototype.split\<close> with a one-character separator.\<close>

fun split :: "char \<Rightarrow> string \<Rightarrow> string list" where
  "split c [] = [[]]"
| "split c (x # xs) =
     (if x = c then [] # split c xs
      else (case split c xs of p # ps \<Rightarrow> (x # p) # ps | [] \<Rightarrow> [[x]]))"

section \<open>The webhook ingestor (webhook controller)\<close>

definition parsed_init :: parsed where
  "parsed_init =
     \<lparr> p_custom_order_id = Null, p_collect_request_id = Null, p_transaction_id = Null,
       p_order_amount = Null, p_transaction_amount = Null, p_payment_mode = Null,
       p_payment_details = Null, p_bank_reference = Null, p_payment_message = Null,
       p_status = Null, p_error_message = Null, p_payment_time = Null,
       p_gateway = Val ''edviron'' \<rparr>"

text \<open>``Extract order information'': a composite \<open>order_id\<close> of exactly two parts gives the
  collect request id and the transaction id, any other string is the collect request id
  whole. Calling \<open>split\<close> on a number throws (a \<open>TypeError\<close>).\<close>

definition extract_order_info :: "payload \<Rightarrow> parsed \<Rightarrow> error + parsed" where
  "extract_order_info payload parsed =
     (case pl_order_info payload of
        Val oi \<Rightarrow>
          (let parsed1 = parsed\<lparr>p_custom_order_id := oi_custom_order_id oi\<rparr> in
           if truthy_id (oi_order_id oi) then
             (case oi_order_id oi of
                Val (IdString order_id) \<Rightarrow>
                  (case split CHR ''/'' order_id of
                     [a, b] \<Rightarrow>
                       Inr (parsed1\<lparr>p_collect_request_id := Val a, p_transaction_id := Val b\<rparr>)
                   | _ \<Rightarrow> Inr (parsed1\<lparr>p_collect_request_id := Val order_id\<rparr>))
              | _ \<Rightarrow> Inl (TypeError ''payload.order_info.order_id.split is not a function''))
           else Inr parsed1)
      | _ \<Rightarrow> Inr parsed)"

text \<open>``Extract payment information''.\<close>

definition extract_payment_info :: "payload \<Rightarrow> parsed \<Rightarrow> parsed" where
  "extract_payment_info payload parsed =
     (case pl_payment_info payload of
        Val pi \<Rightarrow>
          (let parsed1 = parsed\<lparr>
                 p_order_amount := pi_order_amount pi,
                 p_transaction_amount := or_number (pi_transaction_amount pi) (pi_amount pi),
                 p_payment_mode := pi_payment_mode pi,
                 p_payment_details := pi_payment_details pi,
                 p_bank_reference := pi_bank_reference pi,
                 p_payment_message := or_string (pi_payment_message pi) (pi_message pi),
                 p_status := pi_status pi,
                 p_error_message := pi_error_message pi,
                 p_gateway := or_string (pi_gateway pi) (Val ''edviron'')\<rparr>;
               parsed2 = (if truthy_text (pi_payment_time pi)
                          then (case pi_payment_time pi of
                                  Val t \<Rightarrow> parsed1\<lparr>p_payment_time := Val (DateOf t)\<rparr>
                                | _ \<Rightarrow> parsed1)
                          else parsed1)
           in if truthy_str (pi_transaction_id pi)
              then parsed2\<lparr>p_transaction_id := pi_transaction_id pi\<rparr>
              else parsed2)
      | _ \<Rightarrow> parsed)"

text \<open>``Handle flat structure (fallback)''.\<close>

definition extract_flat :: "payload \<Rightarrow> parsed \<Rightarrow> parsed" where
  "extract_flat payload parsed =
     (if \<not> present (pl_order_info payload) \<and> \<not> present (pl_payment_info payload) then
        (let parsed1 = parsed\<lparr>
               p_custom_order_id := pl_custom_order_id payload,
               p_collect_request_id := pl_collect_request_id payload,
               p_transaction_id := pl_transaction_id payload,
               p_order_amount := pl_order_amount payload,
               p_transaction_amount := or_number (pl_transaction_amount payload) (pl_amount payload),
               p_payment_mode := pl_payment_mode payload,
               p_payment_details := pl_payment_details payload,
               p_bank_reference := pl_bank_reference payload,
               p_payment_message := or_string (pl_payment_message payload) (pl_message payload),
               p_status := pl_status payload,
               p_error_message := pl_error_message payload,
               p_gateway := or_string (pl_gateway payload) (Val ''edviron'')\<rparr>
         in if truthy_text (pl_payment_time payload)
            then (case pl_payment_time payload of
                    Val t \<Rightarrow> parsed1\<lparr>p_payment_time := Val (DateOf t)\<rparr>
                  | _ \<Rightarrow> parsed1)
            else parsed1)
      else parsed)"

text \<open>\<open>parseWebhookPayload(payload)\<close>; \<open>now\<close> is what \<open>new Date()\<close> reads. Whatever is
  thrown inside is rethrown as ``Invalid webhook payload format''.\<close>

definition parseWebhookPayload :: "nat \<Rightarrow> payload \<Rightarrow> error + parsed" where
  "parseWebhookPayload now payload =
     (case extract_order_info payload parsed_init of
        Inl e \<Rightarrow> Inl InvalidPayloadFormat
      | Inr parsed1 \<Rightarrow>
          (let parsed2 = extract_payment_info payload parsed1;
               parsed3 = extract_flat payload parsed2
           in Inr (if \<not> present (p_payment_time parsed3)
                   then parsed3\<lparr>p_payment_time := Val (DateNow now)\<rparr>
                   else parsed3)))"

text \<open>The transaction id of \<open>payment_info\<close>, when it is there and truthy.\<close>

definition payment_transaction_id :: "payload \<Rightarrow> string js" where
  "payment_transaction_id payload =
     (case pl_payment_info payload of
        Val pi \<Rightarrow> (if truthy_str (pi_transaction_id pi) then pi_transaction_id pi else Undefined)
      | _ \<Rightarrow> Undefined)"

subsection \<open>Delivery records (models/WebhookLog.js)\<close>

record webhook_log =
  wl_id :: nat
  wl_raw_payload :: payload
  wl_parsed :: "parsed js"
  wl_received_at :: nat
  wl_signature_valid :: "bool js"
  wl_processing_status :: string
  wl_processing_message :: "string js"
  wl_order_id :: "nat js"
  wl_custom_order_id :: "string js"
  wl_collect_request_id :: "string js"
  wl_transaction_id :: "string js"
  wl_source_ip :: "string js"
  wl_user_agent :: "string js"
  wl_headers :: "string js"
  wl_retries :: nat
  wl_last_retry_at :: "nat js"
  wl_processed_at :: "nat js"

text \<open>The plain object \<open>webhookLogData\<close> of \<open>processWebhook\<close>. \<open>wld_id\<close> is its property
  \<open>_id\<close>, which the failure handler reads.\<close>

record webhook_log_data =
  wld_id :: "nat js"
  wld_raw_payload :: payload
  wld_received_at :: nat
  wld_source_ip :: "string js"
  wld_user_agent :: "string js"
  wld_headers :: "string js"
  wld_processing_status :: string
  wld_processing_message :: "string js"
  wld_parsed :: "parsed js"
  wld_custom_order_id :: "string js"
  wld_collect_request_id :: "string js"
  wld_transaction_id :: "string js"

text \<open>The database: the three collections.\<close>

record store =
  orders :: "order list"
  statuses :: "order_status list"
  webhook_logs :: "webhook_log list"

text \<open>A new document gets an \<open>_id\<close> no stored document has.\<close>

definition fresh_id :: "webhook_log list \<Rightarrow> nat" where
  "fresh_id logs = Suc (fold max (map wl_id logs) 0)"

text \<open>\<open>WebhookLog.createLog(logData)\<close>: a new document with the fields of \<open>logData\<close>
  (strings trimmed where the schema says so) and the defaults of the schema, saved. The
  validators of the schema (a raw payload, a processing status of the enumeration) hold for
  every \<open>logData\<close> the handler passes.\<close>

definition createLog :: "store \<Rightarrow> webhook_log_data \<Rightarrow> webhook_log \<times> store" where
  "createLog st logData =
     (let webhookLog =
        \<lparr> wl_id = (case wld_id logData of Val i \<Rightarrow> i | _ \<Rightarrow> fresh_id (webhook_logs st)),
          wl_raw_payload = wld_raw_payload logData,
          wl_parsed = wld_parsed logData,
          wl_received_at = wld_received_at logData,
          wl_signature_valid = Null,
          wl_processing_status = wld_processing_status logData,
          wl_processing_message = trimmed (wld_processing_message logData),
          wl_order_id = Undefined,
          wl_custom_order_id = trimmed (wld_custom_order_id logData),
          wl_collect_request_id = trimmed (wld_collect_request_id logData),
          wl_transaction_id = trimmed (wld_transaction_id logData),
          wl_source_ip = trimmed (wld_source_ip logData),
          wl_user_agent = trimmed (wld_user_agent logData),
          wl_headers = wld_headers logData,
          wl_retries = 0,
          wl_last_retry_at = Undefined,
          wl_processed_at = Undefined \<rparr>
      in (webhookLog, st\<lparr>webhook_logs := webhook_logs st @ [webhookLog]\<rparr>))"

definition save_log :: "webhook_log list \<Rightarrow> webhook_log \<Rightarrow> webhook_log list" where
  "save_log logs d = map (\<lambda>x. if wl_id x = wl_id d then d else x) logs"

definition findById :: "webhook_log list \<Rightarrow> nat \<Rightarrow> webhook_log option" where
  "findById logs i = find (\<lambda>l. wl_id l = i) logs"

definition markAsProcessed :: "nat \<Rightarrow> store \<Rightarrow> webhook_log \<Rightarrow> string js \<Rightarrow> store" where
  "markAsProcessed now st this msg =
     (let d1 = this\<lparr>wl_processing_status := ''processed'', wl_processed_at := Val now\<rparr>;
          d2 = (if truthy_str msg then d1\<lparr>wl_processing_message := trimmed msg\<rparr> else d1)
      in st\<lparr>webhook_logs := save_log (webhook_logs st) d2\<rparr>)"

definition markAsFailed :: "nat \<Rightarrow> store \<Rightarrow> webhook_log \<Rightarrow> string \<Rightarrow> store" where
  "markAsFailed now st this errorMessage =
     st\<lparr>webhook_logs := save_log (webhook_logs st)
          (this\<lparr>wl_processing_status := ''failed'',
                wl_processing_message := Val (trim errorMessage),
                wl_retries := wl_retries this + 1,
                wl_last_retry_at := Val now\<rparr>)\<rparr>"

subsection \<open>Processing\<close>

text \<open>``Find the order'': by custom order id when the observation has one, otherwise by
  collect request id.\<close>

definition find_order :: "order list \<Rightarrow> parsed \<Rightarrow> order option" where
  "find_order os parsed =
     (if truthy_str (p_custom_order_id parsed) then
        (case p_custom_order_id parsed of
           Val c \<Rightarrow> findByCustomOrderId os c | _ \<Rightarrow> None)
      else if truthy_str (p_collect_request_id parsed) then
        (case p_collect_request_id parsed of
           Val r \<Rightarrow> findOne_collect_request_id os r | _ \<Rightarrow> None)
      else None)"

text \<open>``Prepare order status data''.\<close>

definition statusData_of :: "parsed \<Rightarrow> order \<Rightarrow> status_data" where
  "statusData_of parsed order =
     \<lparr> sd_order_amount = or_number (p_order_amount parsed) (Val (o_amount order)),
       sd_transaction_amount = p_transaction_amount parsed,
       sd_payment_mode = p_payment_mode parsed,
       sd_payment_details = p_payment_details parsed,
       sd_bank_reference = p_bank_reference parsed,
       sd_payment_message = p_payment_message parsed,
       sd_status = p_status parsed,
       sd_error_message = p_error_message parsed,
       sd_payment_time = p_payment_time parsed,
       sd_transaction_id = p_transaction_id parsed,
       sd_gateway = p_gateway parsed,
       sd_vendor_data = Val (FromWebhook parsed) \<rparr>"

text \<open>The statuses after which the webhook path updates the order
  (\<open>['completed', 'failed', 'cancelled'].includes(parsed.status)\<close>).\<close>

definition final_statuses :: "string list" where
  "final_statuses = [''completed'', ''failed'', ''cancelled'']"

text \<open>
  \<open>processWebhookData(parsed, webhookLog)\<close>. The result is the error thrown, or the
  delivery record as the function leaves it, and the database as it is at that moment:
  what was written before an exception stays written.
\<close>

definition processWebhookData ::
  "store \<Rightarrow> parsed \<Rightarrow> webhook_log \<Rightarrow> (error + webhook_log) \<times> store" where
  "processWebhookData st parsed webhookLog =
     (if \<not> truthy_str (p_custom_order_id parsed) \<and> \<not> truthy_str (p_collect_request_id parsed)
      then (Inl NoOrderIdentifier, st)
      else
        (case find_order (orders st) parsed of
           None \<Rightarrow>
             (Inl (OrderNotFound (p_custom_order_id parsed) (p_collect_request_id parsed)), st)
         | Some order \<Rightarrow>
             (let webhookLog1 = webhookLog\<lparr>
                    wl_order_id := Val (o_id order),
                    wl_custom_order_id := Val (trim (o_custom_order_id order)),
                    wl_collect_request_id := trimmed (o_collect_request_id order)\<rparr>;
                  st1 = st\<lparr>webhook_logs := save_log (webhook_logs st) webhookLog1\<rparr>
              in case upsertStatus (statuses st1) (o_id order) (statusData_of parsed order) of
                   Inl e \<Rightarrow> (Inl e, st1)
                 | Inr (saved, db) \<Rightarrow>
                     (let st2 = st1\<lparr>statuses := db\<rparr> in
                      case p_status parsed of
                        Val status \<Rightarrow>
                          (if status \<in> set final_statuses then
                             (case updateStatus (orders st2) order status of
                                Inl e \<Rightarrow> (Inl e, st2)
                              | Inr os \<Rightarrow> (Inr webhookLog1, st2\<lparr>orders := os\<rparr>))
                           else (Inr webhookLog1, st2))
                      | _ \<Rightarrow> (Inr webhookLog1, st2)))))"

record request =
  rq_body :: payload
  rq_ip :: "string js"
  rq_user_agent :: "string js"
  rq_headers :: "string js"

record response =
  rsp_status :: nat
  rsp_success :: bool
  rsp_message :: string

text \<open>The \<open>catch\<close> block of \<open>processWebhook\<close>. The lookup of a stored record that cannot be
  found, or fails, is logged and changes nothing.\<close>

definition webhook_failed :: "nat \<Rightarrow> store \<Rightarrow> webhook_log_data \<Rightarrow> error \<Rightarrow> response \<times> store" where
  "webhook_failed now st webhookLogData err =
     (let st1 =
        (if present (wld_id webhookLogData) then
           (case wld_id webhookLogData of
              Val i \<Rightarrow>
                (case findById (webhook_logs st) i of
                   Some webhookLog \<Rightarrow> markAsFailed now st webhookLog (message err)
                 | None \<Rightarrow> st)
            | _ \<Rightarrow> st)
         else snd (createLog st (webhookLogData\<lparr>
                     wld_processing_status := ''failed'',
                     wld_processing_message := Val (message err)\<rparr>)))
      in (\<lparr> rsp_status = 400, rsp_success = False,
            rsp_message = ''Webhook processing failed'' \<rparr>, st1))"

text \<open>The object literal \<open>webhookLogData\<close> at the start of \<open>processWebhook\<close>: it has no
  key \<open>_id\<close>.\<close>

definition webhookLogData_init :: "nat \<Rightarrow> request \<Rightarrow> webhook_log_data" where
  "webhookLogData_init now req =
     \<lparr> wld_id = Undefined,
       wld_raw_payload = rq_body req,
       wld_received_at = now,
       wld_source_ip = rq_ip req,
       wld_user_agent = rq_user_agent req,
       wld_headers = rq_headers req,
       wld_processing_status = ''queued'',
       wld_processing_message = Undefined,
       wld_parsed = Undefined,
       wld_custom_order_id = Undefined,
       wld_collect_request_id = Undefined,
       wld_transaction_id = Undefined \<rparr>"

text \<open>\<open>webhookLogData.parsed = parsed\<close> and ``Extract identifiers''.\<close>

definition with_parsed :: "webhook_log_data \<Rightarrow> parsed \<Rightarrow> webhook_log_data" where
  "with_parsed webhookLogData parsed =
     webhookLogData\<lparr>
       wld_parsed := Val parsed,
       wld_custom_order_id :=
         (if truthy_str (p_custom_order_id parsed)
          then p_custom_order_id parsed else wld_custom_order_id webhookLogData),
       wld_collect_request_id :=
         (if truthy_str (p_collect_request_id parsed)
          then p_collect_request_id parsed else wld_collect_request_id webhookLogData),
       wld_transaction_id :=
         (if truthy_str (p_transaction_id parsed)
          then p_transaction_id parsed else wld_transaction_id webhookLogData)\<rparr>"

text \<open>
  \<open>processWebhook(req, res)\<close>. \<open>this\<close> is the receiver of the call: the controller when
  the handler is called as its method, nothing when the function is called on its own; then
  \<open>this\<close> is \<open>undefined\<close> and reading \<open>this.parseWebhookPayload\<close>, inside the \<open>try\<close>,
  throws. \<open>now\<close> is what \<open>new Date()\<close> reads while the request is handled. The result is
  the response sent and the database afterwards.
\<close>

datatype controller = WebhookController

definition no_receiver :: error where
  "no_receiver =
     TypeError (''Cannot read properties of undefined (reading '' @ [CHR 0x27] @
                ''parseWebhookPayload'' @ [CHR 0x27] @ '')'')"

definition processWebhook :: "controller option \<Rightarrow> nat \<Rightarrow> store \<Rightarrow> request \<Rightarrow> response \<times> store" where
  "processWebhook this now st req =
     (case this of
        None \<Rightarrow> webhook_failed now st (webhookLogData_init now req) no_receiver
      | Some c \<Rightarrow>
          (case parseWebhookPayload now (rq_body req) of
             Inl e \<Rightarrow> webhook_failed now st (webhookLogData_init now req) e
           | Inr parsed \<Rightarrow>
               (let webhookLogData = with_parsed (webhookLogData_init now req) parsed;
                    (webhookLog, st1) = createLog st webhookLogData
                in case processWebhookData st1 parsed webhookLog of
                     (Inl e, st2) \<Rightarrow> webhook_failed now st2 webhookLogData e
                   | (Inr webhookLog1, st2) \<Rightarrow>
                       (\<lparr> rsp_status = 200, rsp_success = True,
                          rsp_message = ''Webhook processed successfully'' \<rparr>,
                        markAsProcessed now st2 webhookLog1
                          (Val ''Webhook processed successfully'')))))"

text \<open>
  The route (routes/webhook.routes.js):
  \<open>router.post('/webhook', asyncHandler(webhookController.processWebhook))\<close>. \<open>asyncHandler\<close>
  calls the function it was given as \<open>fn(req, res, next)\<close>, without a receiver.
\<close>

definition webhook_route :: "nat \<Rightarrow> store \<Rightarrow> request \<Rightarrow> response \<times> store" where
  "webhook_route now st req = processWebhook None now st req"

text \<open>An observation refers to an order when it names the order's custom order id or its
  collect request id, white space around the name aside.\<close>

definition refers_to :: "parsed \<Rightarrow> order \<Rightarrow> bool" where
  "refers_to parsed order =
     ((truthy_str (p_custom_order_id parsed) \<and>
       trimmed (p_custom_order_id parsed) = Val (o_custom_order_id order)) \<or>
      (truthy_str (p_collect_request_id parsed) \<and>
       trimmed (p_collect_request_id parsed) = o_collect_request_id order))"

section \<open>Polling through \<open>getTransactionStatus\<close> (transactions controller)\<close>

text \<open>The caller, as the authentication middleware leaves it in \<open>req.user\<close>.\<close>

record user =
  u_email :: string
  u_role :: string
  u_school_id :: "string js"

text \<open>What \<open>vendorClient.getCollectRequest\<close> comes back with: the body of the vendor's
  answer, or an error thrown (the handler logs its message and goes on).\<close>

datatype vendor_outcome = VendorAnswered "vendor_collect js" | VendorFailed string

text \<open>The \<open>statusData\<close> of this handler: the vendor's fields as they are, the status among
  them.\<close>

definition statusData_of_vendor :: "nat \<Rightarrow> vendor_collect \<Rightarrow> order \<Rightarrow> status_data" where
  "statusData_of_vendor now vendorStatus order =
     \<lparr> sd_order_amount = or_number (vc_order_amount vendorStatus) (Val (o_amount order)),
       sd_transaction_amount = vc_transaction_amount vendorStatus,
       sd_payment_mode = vc_payment_mode vendorStatus,
       sd_payment_details = vc_payment_details vendorStatus,
       sd_bank_reference = vc_bank_reference vendorStatus,
       sd_payment_message = vc_payment_message vendorStatus,
       sd_status = vc_status vendorStatus,
       sd_error_message = vc_error_message vendorStatus,
       sd_payment_time =
         (if truthy_text (vc_payment_time vendorStatus)
          then (case vc_payment_time vendorStatus of
                  Val t \<Rightarrow> Val (DateOf t) | _ \<Rightarrow> Val (DateNow now))
          else Val (DateNow now)),
       sd_transaction_id = vc_transaction_id vendorStatus,
       sd_gateway = or_string (vc_gateway vendorStatus) (Val ''edviron''),
       sd_vendor_data = Val (FromVendor vendorStatus) \<rparr>"

text \<open>
  \<open>getTransactionStatus(req, res)\<close>, from the custom order id of the request, the caller and
  the outcome of the vendor call (made only when the order has a collect request id): the
  status of the response and the database afterwards. Whatever the vendor call or
  \<open>upsertStatus\<close> throws is caught and logged. The body of the response (the order, its
  latest ledger entry by time, the vendor's answer) is left out.
\<close>

definition getTransactionStatus ::
  "nat \<Rightarrow> store \<Rightarrow> string \<Rightarrow> user \<Rightarrow> vendor_outcome \<Rightarrow> nat \<times> store" where
  "getTransactionStatus now st custom_order_id caller vendor =
     (case findByCustomOrderId (orders st) custom_order_id of
        None \<Rightarrow> (404, st)
      | Some order \<Rightarrow>
          (if u_role caller \<noteq> ''admin'' \<and> u_school_id caller \<noteq> Val (o_school_id order)
           then (403, st)
           else
             (200,
              if truthy_str (o_collect_request_id order) then
                (case vendor of
                   VendorFailed m \<Rightarrow> st
                 | VendorAnswered (Val vendorStatus) \<Rightarrow>
                     (case upsertStatus (statuses st) (o_id order)
                             (statusData_of_vendor now vendorStatus order) of
                        Inl e \<Rightarrow> st
                      | Inr (saved, db) \<Rightarrow> st\<lparr>statuses := db\<rparr>)
                 | VendorAnswered _ \<Rightarrow> st)
              else st)))"

section \<open>Polling through \<open>checkPaymentStatus\<close> (payment controller)\<close>

text \<open>
  The payment controller works on the \<open>OrderStatus\<close> model of its own \<open>models/index.js\<close>,
  whose schema differs from the one above: no transaction id, gateway or vendor data; order
  amount, transaction amount, payment mode and status are required; the status is any
  non-empty string; every string is trimmed.
\<close>

record payment_status =
  ps_collect_id :: nat
  ps_order_amount :: "int js"
  ps_transaction_amount :: "int js"
  ps_payment_mode :: "string js"
  ps_payment_details :: "string js"
  ps_bank_reference :: "string js"
  ps_payment_message :: "string js"
  ps_status :: "string js"
  ps_error_message :: "string js"
  ps_payment_time :: "jsdate js"

text \<open>What \<open>save()\<close> checks, by this schema; the result lists the paths that fail.\<close>

definition payment_invalid_paths :: "payment_status \<Rightarrow> string list" where
  "payment_invalid_paths d =
     (case ps_order_amount d of Val n \<Rightarrow> (if n < 0 then [''order_amount''] else [])
        | _ \<Rightarrow> [''order_amount'']) @
     (case ps_transaction_amount d of Val n \<Rightarrow> (if n < 0 then [''transaction_amount''] else [])
        | _ \<Rightarrow> [''transaction_amount'']) @
     (if truthy_str (ps_payment_mode d) then [] else [''payment_mode'']) @
     (if truthy_str (ps_status d) then [] else [''status'']) @
     (case ps_payment_time d of Val t \<Rightarrow> (if valid_date t then [] else [''payment_time''])
        | _ \<Rightarrow> [])"

text \<open>The hook of the schema that runs before a document is written: a status that has
  changed to \<open>completed\<close> gets a payment time if it has none.\<close>

definition pre_save :: "nat \<Rightarrow> payment_status \<Rightarrow> payment_status \<Rightarrow> payment_status" where
  "pre_save now loaded this =
     (if ps_status this \<noteq> ps_status loaded \<and> ps_status this = Val ''completed'' \<and>
         \<not> present (ps_payment_time this)
      then this\<lparr>ps_payment_time := Val (DateNow now)\<rparr> else this)"

text \<open>What the vendor answered to the status request, as \<open>paymentService.checkPaymentStatus\<close>
  hands it on: \<open>{success: true, data}\<close> or \<open>{success: false, error}\<close>.\<close>

record vendor_status =
  vs_status :: "string js"
  vs_amount :: "int js"
  vs_details :: "string js"

record service_error =
  se_message :: "string js"
  se_status :: "int js"
  se_code :: "string js"

datatype status_result = Succeeded vendor_status | Failed service_error

datatype app_error = AppError string int

text \<open>``Map API status to our status enum''.\<close>

definition dbStatus :: "string js \<Rightarrow> string" where
  "dbStatus api_status =
     (if api_status = Val ''SUCCESS'' then ''completed''
      else if api_status = Val ''FAILED'' then ''failed''
      else ''pending'')"

text \<open>The filter \<open>{collect_id: order_id}\<close>.\<close>

definition of_order :: "nat \<Rightarrow> payment_status \<Rightarrow> bool" where
  "of_order order_id d = (ps_collect_id d = order_id)"

text \<open>``If order_id is provided, update the order status in database'': the first ledger
  document of the order gets the mapped status. An error of \<open>save()\<close> is logged, not
  thrown, and leaves the ledger as it was.\<close>

definition update_order_status ::
  "nat \<Rightarrow> payment_status list \<Rightarrow> nat \<Rightarrow> vendor_status \<Rightarrow> payment_status list" where
  "update_order_status now db order_id data =
     (case find (of_order order_id) db of
        None \<Rightarrow> db
      | Some orderStatus \<Rightarrow>
          (let d1 = orderStatus\<lparr>
                 ps_status := Val (trim (dbStatus (vs_status data))),
                 ps_transaction_amount := or_number (vs_amount data) (ps_order_amount orderStatus),
                 ps_payment_message :=
                   Val (trim (''Payment '' @ interpolate (vs_status data)))\<rparr>;
               d2 = (if dbStatus (vs_status data) = ''completed''
                     then d1\<lparr>ps_payment_time := Val (DateNow now)\<rparr> else d1)
           in case payment_invalid_paths d2 of
                [] \<Rightarrow> replace_first (of_order order_id) (pre_save now orderStatus d2) db
              | ps \<Rightarrow> db))"

record poll_response =
  pr_collect_request_id :: "string js"
  pr_payment_status :: "string js"
  pr_amount :: "int js"
  pr_details :: "string js"
  pr_order_id :: "nat js"

text \<open>
  \<open>checkPaymentStatus\<close>, from the request parameters, the configured school id and the
  outcome of the signed vendor call: the error thrown or the response sent, and the ledger
  afterwards. \<open>order_id\<close> is the query parameter, the id of an order when it is there.
\<close>

definition checkPaymentStatus ::
  "nat \<Rightarrow> payment_status list \<Rightarrow> string js \<Rightarrow> nat js \<Rightarrow> string js \<Rightarrow> status_result
     \<Rightarrow> (app_error + poll_response) \<times> payment_status list" where
  "checkPaymentStatus now db collect_request_id order_id school_id statusResult =
     (if \<not> truthy_str collect_request_id
      then (Inl (AppError ''Collect request ID is required'' 400), db)
      else if \<not> truthy_str school_id
      then (Inl (AppError ''School ID not configured'' 500), db)
      else
        (case statusResult of
           Failed err \<Rightarrow>
             (Inl (AppError
                    (interpolate (or_string (se_message err) (Val ''Failed to check payment status'')))
                    (case or_number (se_status err) (Val 500) of Val c \<Rightarrow> c | _ \<Rightarrow> 500)), db)
         | Succeeded data \<Rightarrow>
             (Inr \<lparr> pr_collect_request_id = collect_request_id,
                    pr_payment_status = vs_status data,
                    pr_amount = vs_amount data,
                    pr_details = vs_details data,
                    pr_order_id = (if present order_id then order_id else Null) \<rparr>,
              (case order_id of
                 Val oid \<Rightarrow> update_order_status now db oid data
               | _ \<Rightarrow> db))))"

section \<open>Vendor calls with retry (utils/asyncHelpers.js, services/paymentService.js)\<close>

text \<open>
  What an HTTP call of the vendor client rejects with: an error with a message and, when
  the vendor answered with a status outside 2xx, the response (its status, and the message
  and code of its body). No response means a network error or a timeout.
\<close>

record http_response =
  hr_status :: nat
  hr_message :: "string js"
  hr_code :: "string js"

record http_error =
  he_message :: string
  he_response :: "http_response option"

definition client_error :: "http_error \<Rightarrow> bool" where
  "client_error e = (case he_response e of Some r \<Rightarrow> 400 \<le> hr_status r \<and> hr_status r < 500 | None \<Rightarrow> False)"

text \<open>
  The loop of \<open>retryWithBackoff\<close>. The operation is a closure that is called anew at every
  attempt; \<open>operation k\<close> is the outcome of the call made at attempt \<open>k\<close>. The state of the
  loop is the attempt, \<open>lastError\<close> and the delays waited so far. The result is the value
  returned or the error thrown (\<open>None\<close>: \<open>lastError\<close> was never assigned), the number of
  calls made, and the delays.
\<close>

function retry_loop ::
  "(nat \<Rightarrow> 'e + 'a) \<Rightarrow> nat \<Rightarrow> nat \<Rightarrow> nat \<Rightarrow> nat \<Rightarrow> 'e option \<Rightarrow> nat list
     \<Rightarrow> ('e option + 'a) \<times> nat \<times> nat list" where
  "retry_loop operation maxRetries baseDelay maxDelay attempt lastError delays =
     (if attempt \<le> maxRetries then
        (case operation attempt of
           Inr v \<Rightarrow> (Inr v, Suc attempt, delays)
         | Inl error \<Rightarrow>
             (if attempt = maxRetries then (Inl (Some error), Suc attempt, delays)
              else retry_loop operation maxRetries baseDelay maxDelay (Suc attempt) (Some error)
                     (delays @ [min (baseDelay * 2 ^ attempt) maxDelay])))
      else (Inl lastError, attempt, delays))"
  by pat_completeness auto
termination
  by (relation "measure (\<lambda>(operation, maxRetries, baseDelay, maxDelay, attempt, lastError, delays).
        Suc maxRetries - attempt)") auto

declare retry_loop.simps [simp del]

definition retryWithBackoff ::
  "(nat \<Rightarrow> 'e + 'a) \<Rightarrow> nat \<Rightarrow> nat \<Rightarrow> nat \<Rightarrow> ('e option + 'a) \<times> nat \<times> nat list" where
  "retryWithBackoff operation maxRetries baseDelay maxDelay =
     retry_loop operation maxRetries baseDelay maxDelay 0 None []"

record collect_response =
  cr_collect_request_id :: "string js"
  cr_collect_request_url :: "string js"
  cr_sign :: "string js"

record collect_data =
  cd_collect_request_id :: "string js"
  cd_payment_url :: "string js"
  cd_sign :: "string js"

text \<open>The result of \<open>createCollectRequest\<close>: \<open>{success: true, data}\<close>,
  \<open>{success: false, error: {message, status, code}}\<close>, or an exception of the handler
  itself (reading the message of an error that is \<open>undefined\<close>).\<close>

datatype collect_result =
    Success collect_data
  | Failure string nat string
  | Thrown

text \<open>\<open>paymentService.createCollectRequest\<close>; \<open>post k\<close> is the outcome of the \<open>k\<close>-th
  \<open>POST /create-collect-request\<close>. With the result come the number of requests sent and
  the delays waited between them.\<close>

definition createCollectRequest ::
  "(nat \<Rightarrow> http_error + collect_response) \<Rightarrow> collect_result \<times> nat \<times> nat list" where
  "createCollectRequest post =
     (case retryWithBackoff post 3 1000 5000 of
        (Inr response, n, ds) \<Rightarrow>
          (Success \<lparr> cd_collect_request_id = cr_collect_request_id response,
                     cd_payment_url = cr_collect_request_url response,
                     cd_sign = cr_sign response \<rparr>, n, ds)
      | (Inl (Some error), n, ds) \<Rightarrow>
          (Failure
             (interpolate (or_string (case he_response error of Some r \<Rightarrow> hr_message r | None \<Rightarrow> Undefined)
                            (Val (he_message error))))
             (case he_response error of
                Some r \<Rightarrow> (if hr_status r = 0 then 500 else hr_status r) | None \<Rightarrow> 500)
             (interpolate (or_string (case he_response error of Some r \<Rightarrow> hr_code r | None \<Rightarrow> Undefined)
                            (Val ''PAYMENT_API_ERROR''))), n, ds)
      | (Inl None, n, ds) \<Rightarrow> (Thrown, n, ds))"

section \<open>Predicates and sample data of the statements\<close>

text \<open>What the validators ask of an observation besides its status: an order amount that
  is not negative, no negative transaction amount, no \<open>Invalid Date\<close> as payment time.\<close>

definition accepted :: "status_data \<Rightarrow> bool" where
  "accepted sd =
     ((case sd_order_amount sd of Val n \<Rightarrow> 0 \<le> n | _ \<Rightarrow> False) \<and>
      (case sd_transaction_amount sd of Val n \<Rightarrow> 0 \<le> n | _ \<Rightarrow> True) \<and>
      (case sd_payment_time sd of Val t \<Rightarrow> valid_date t | _ \<Rightarrow> True))"

text \<open>The delivery record as \<open>processWebhookData\<close> links it to the order it found, and
  the response of the failure handler of \<open>processWebhook\<close>.\<close>

definition linked :: "webhook_log \<Rightarrow> order \<Rightarrow> webhook_log" where
  "linked webhookLog order =
     webhookLog\<lparr>
       wl_order_id := Val (o_id order),
       wl_custom_order_id := Val (trim (o_custom_order_id order)),
       wl_collect_request_id := trimmed (o_collect_request_id order)\<rparr>"

definition bad_request_response :: response where
  "bad_request_response =
     \<lparr> rsp_status = 400, rsp_success = False, rsp_message = ''Webhook processing failed'' \<rparr>"

subsection \<open>Sample data\<close>

text \<open>An observation and a ledger document of order 7 with the same content, by transaction
  id (none when the string is empty), status and amount.\<close>

definition ex_observation :: "string \<Rightarrow> string \<Rightarrow> int \<Rightarrow> status_data" where
  "ex_observation t s x =
     \<lparr> sd_order_amount = Val x, sd_transaction_amount = Val x, sd_payment_mode = Val ''upi'',
       sd_payment_details = Undefined, sd_bank_reference = Undefined,
       sd_payment_message = Undefined, sd_status = Val s, sd_error_message = Undefined,
       sd_payment_time = Val (DateNow 0), sd_transaction_id = (if t = [] then Undefined else Val t),
       sd_gateway = Val ''edviron'', sd_vendor_data = Undefined \<rparr>"

definition ex_entry :: "string \<Rightarrow> string \<Rightarrow> int \<Rightarrow> order_status" where
  "ex_entry t s x =
     \<lparr> os_collect_id = 7, os_order_amount = Val x, os_transaction_amount = Val x,
       os_payment_mode = Val ''upi'', os_payment_details = Undefined,
       os_bank_reference = Undefined, os_payment_message = Undefined, os_status = Val s,
       os_error_message = Undefined, os_payment_time = Val (DateNow 0),
       os_transaction_id = (if t = [] then Undefined else Val t), os_gateway = Val ''edviron'',
       os_vendor_data = Undefined \<rparr>"

text \<open>The delay before the retry that follows attempt \<open>attempt\<close>.\<close>

definition backoff :: "nat \<Rightarrow> nat \<Rightarrow> nat \<Rightarrow> nat" where
  "backoff baseDelay maxDelay attempt = min (baseDelay * 2 ^ attempt) maxDelay"

text \<open>Two rejections of the vendor call, a 400 and a 503, and an answer.\<close>

definition bad_request :: http_error where
  "bad_request =
     \<lparr> he_message = ''Request failed with status code 400'',
       he_response = Some \<lparr> hr_status = 400, hr_message = Val ''amount is invalid'', hr_code = Undefined \<rparr> \<rparr>"

definition unavailable :: http_error where
  "unavailable =
     \<lparr> he_message = ''Request failed with status code 503'',
       he_response = Some \<lparr> hr_status = 503, hr_message = Undefined, hr_code = Undefined \<rparr> \<rparr>"

definition ex_collect_response :: collect_response where
  "ex_collect_response =
     \<lparr> cr_collect_request_id = Val ''CRQ123'', cr_collect_request_url = Val ''https://pay'',
       cr_sign = Undefined \<rparr>"

text \<open>A nested payload with a given \<open>order_info.order_id\<close>, status \<open>completed\<close> and a given
  \<open>payment_info.transaction_id\<close>.\<close>

definition empty_payment_info :: payment_info where
  "empty_payment_info =
     \<lparr> pi_order_amount = Undefined, pi_transaction_amount = Undefined, pi_amount = Undefined,
       pi_payment_mode = Undefined, pi_payment_details = Undefined,
       pi_bank_reference = Undefined, pi_payment_message = Undefined, pi_message = Undefined,
       pi_status = Undefined, pi_error_message = Undefined, pi_gateway = Undefined,
       pi_payment_time = Undefined, pi_transaction_id = Undefined \<rparr>"

definition empty_payload :: payload where
  "empty_payload =
     \<lparr> pl_order_info = Undefined, pl_payment_info = Undefined, pl_custom_order_id = Undefined,
       pl_collect_request_id = Undefined, pl_transaction_id = Undefined,
       pl_order_amount = Undefined, pl_transaction_amount = Undefined, pl_amount = Undefined,
       pl_payment_mode = Undefined, pl_payment_details = Undefined,
       pl_bank_reference = Undefined, pl_payment_message = Undefined, pl_message = Undefined,
       pl_status = Undefined, pl_error_message = Undefined, pl_gateway = Undefined,
       pl_payment_time = Undefined \<rparr>"

definition composite_payload :: "string \<Rightarrow> string js \<Rightarrow> payload" where
  "composite_payload order_id t =
     empty_payload\<lparr>
       pl_order_info := Val \<lparr> oi_order_id = Val (IdString order_id), oi_custom_order_id = Undefined \<rparr>,
       pl_payment_info := Val (empty_payment_info\<lparr>pi_status := Val ''completed'', pi_transaction_id := t\<rparr>) \<rparr>"

text \<open>A database with one order, number 7, known as \<open>ORD-1\<close> and by the collect request
  \<open>CRQ123\<close>, with no ledger entry and no delivery record yet.\<close>

definition ex_order :: order where
  "ex_order =
     \<lparr> o_id = 7, o_school_id = ''SCH001'', o_trustee_id = Undefined,
       o_student_name = ''Asha'', o_student_id = ''S-1'', o_student_email = ''asha@example.org'',
       o_gateway_name = ''edviron'', o_custom_order_id = ''ORD-1'',
       o_collect_request_id = Val ''CRQ123'', o_amount = 100,
       o_callback_url = ''https://school.example/cb'', o_status = ''created'',
       o_vendor_response = Undefined \<rparr>"

definition ex_store :: store where
  "ex_store = \<lparr> orders = [ex_order], statuses = [], webhook_logs = [] \<rparr>"

text \<open>A webhook request with a flat payload: a custom order id, a status and a transaction
  id; what it parses to at time \<open>now\<close>; and the ledger document \<open>upsertStatus\<close> makes of
  it for order 7.\<close>

definition flat_request :: "string \<Rightarrow> string \<Rightarrow> string \<Rightarrow> request" where
  "flat_request c s t =
     \<lparr> rq_body = empty_payload\<lparr>pl_custom_order_id := Val c, pl_status := Val s,
                                 pl_transaction_id := Val t\<rparr>,
       rq_ip = Val ''203.0.113.9'', rq_user_agent = Undefined, rq_headers = Undefined \<rparr>"

definition flat_parsed :: "nat \<Rightarrow> string \<Rightarrow> string \<Rightarrow> string \<Rightarrow> parsed" where
  "flat_parsed now c s t =
     \<lparr> p_custom_order_id = Val c, p_collect_request_id = Undefined, p_transaction_id = Val t,
       p_order_amount = Undefined, p_transaction_amount = Undefined, p_payment_mode = Undefined,
       p_payment_details = Undefined, p_bank_reference = Undefined,
       p_payment_message = Undefined, p_status = Val s, p_error_message = Undefined,
       p_payment_time = Val (DateNow now), p_gateway = Val ''edviron'' \<rparr>"

definition flat_entry :: "nat \<Rightarrow> string \<Rightarrow> string \<Rightarrow> string \<Rightarrow> order_status" where
  "flat_entry now c s t =
     \<lparr> os_collect_id = 7, os_order_amount = Val 100, os_transaction_amount = Undefined,
       os_payment_mode = Undefined, os_payment_details = Undefined,
       os_bank_reference = Undefined, os_payment_message = Undefined, os_status = Val s,
       os_error_message = Undefined, os_payment_time = Val (DateNow now),
       os_transaction_id = Val (trim t), os_gateway = Val ''edviron'',
       os_vendor_data = Val (FromWebhook (flat_parsed now c s t)) \<rparr>"

text \<open>A ledger document as the payment controller makes it when it creates the payment of
  order 7 (mode \<open>online\<close>, transaction amount 0, status \<open>pending\<close>; the payment details
  shortened), and a vendor answer to its status request, with the raw status \<open>r\<close>.\<close>

definition ex_payment_status :: payment_status where
  "ex_payment_status =
     \<lparr> ps_collect_id = 7, ps_order_amount = Val 100, ps_transaction_amount = Val 0,
       ps_payment_mode = Val ''online'', ps_payment_details = Val ''CRQ123'',
       ps_bank_reference = Val [], ps_payment_message = Val [], ps_status = Val ''pending'',
       ps_error_message = Val [], ps_payment_time = Val (DateNow 0) \<rparr>"

definition ex_vendor_status :: "string \<Rightarrow> vendor_status" where
  "ex_vendor_status r = \<lparr> vs_status = Val r, vs_amount = Val 100, vs_details = Undefined \<rparr>"

text \<open>An administrator, and an answer of the vendor to \<open>getCollectRequest\<close> with the status
  \<open>r\<close> and the transaction id \<open>T1\<close>.\<close>

definition ex_admin :: user where
  "ex_admin = \<lparr> u_email = ''admin@example.org'', u_role = ''admin'', u_school_id = Undefined \<rparr>"

definition ex_vendor_collect :: "string \<Rightarrow> vendor_collect" where
  "ex_vendor_collect r =
     \<lparr> vc_order_amount = Val 100, vc_transaction_amount = Val 100, vc_payment_mode = Val ''upi'',
       vc_payment_details = Undefined, vc_bank_reference = Undefined,
       vc_payment_message = Undefined, vc_status = Val r, vc_error_message = Undefined,
       vc_payment_time = Undefined, vc_transaction_id = Val ''T1'', vc_gateway = Undefined \<rparr>"

text \<open>The delivery record \<open>processWebhook\<close> stores for that request before it processes
  it, and the database with that record.\<close>

definition queued_log :: "nat \<Rightarrow> string \<Rightarrow> string \<Rightarrow> string \<Rightarrow> webhook_log" where
  "queued_log now c s t =
     fst (createLog ex_store
            (with_parsed (webhookLogData_init now (flat_request c s t)) (flat_parsed now c s t)))"

definition queued_store :: "nat \<Rightarrow> string \<Rightarrow> string \<Rightarrow> string \<Rightarrow> store" where
  "queued_store now c s t =
     snd (createLog ex_store
            (with_parsed (webhookLogData_init now (flat_request c s t)) (flat_parsed now c s t)))"

text \<open>The ledger document \<open>getTransactionStatus\<close> makes of that answer for order 7 at time
  \<open>now\<close>.\<close>

definition vendor_entry :: "nat \<Rightarrow> string \<Rightarrow> order_status" where
  "vendor_entry now r =
     \<lparr> os_collect_id = 7, os_order_amount = Val 100, os_transaction_amount = Val 100,
       os_payment_mode = Val ''upi'', os_payment_details = Undefined,
       os_bank_reference = Undefined, os_payment_message = Undefined, os_status = Val r,
       os_error_message = Undefined, os_payment_time = Val (DateNow now),
       os_transaction_id = Val ''T1'', os_gateway = Val ''edviron'',
       os_vendor_data = Val (FromVendor (ex_vendor_collect r)) \<rparr>"

section \<open>Properties of the status ledger\<close>

lemma trim_Nil [simp]: "trim [] = []"
  by (simp add: trim_def)

lemma trim_samples [simp]:
  "trim ''T1'' = ''T1''" "trim ''upi'' = ''upi''" "trim ''edviron'' = ''edviron''"
  by (simp_all add: trim_def is_space_def)

lemma truthy_trimmed: "truthy_str (trimmed t) \<Longrightarrow> truthy_str t"
  by (cases t) auto

lemma write_back_loaded:
  "os_collect_id d = os_collect_id e \<Longrightarrow> write_back e d e = d"
  by (cases e, cases d) (simp add: write_back_def)

lemma write_back_unchanged: "write_back d d x = x"
  by (cases x) (simp add: write_back_def)

lemma update_first_loaded:
  "find P xs = Some e \<Longrightarrow> f e = y \<Longrightarrow> update_first P f xs = replace_first P y xs"
  by (induction xs) (auto split: if_splits)

lemma invalid_paths_assign:
  "invalid_paths (assign e sd) = [] \<longleftrightarrow>
     accepted sd \<and> (\<exists>s. sd_status sd = Val s \<and> s \<in> set status_enum)"
  by (auto simp: invalid_paths_def assign_def accepted_def split: js.splits if_splits)

lemma invalid_paths_new:
  "invalid_paths (new_OrderStatus oid sd) = [] \<longleftrightarrow>
     accepted sd \<and> (sd_status sd = Undefined \<or> (\<exists>s. sd_status sd = Val s \<and> s \<in> set status_enum))"
  by (auto simp: invalid_paths_def new_OrderStatus_def accepted_def status_enum_def split: js.splits if_splits)

lemma find_replace_first:
  "find P xs = Some x \<Longrightarrow> P y \<Longrightarrow> find P (replace_first P y xs) = Some y"
  by (induction xs) (auto split: if_splits)

lemma length_replace_first: "length (replace_first P y xs) = length xs"
  by (induction xs) auto

lemma replace_first_same:
  "find P xs = Some x \<Longrightarrow> replace_first P x xs = xs"
  by (induction xs) (auto split: if_splits)

lemma replace_first_none:
  "find P xs = None \<Longrightarrow> replace_first P y xs = xs"
  by (induction xs) (auto split: if_splits)

lemma map_filter_replace_first:
  "(\<And>x. P x \<Longrightarrow> g x = g y \<and> Q x = Q y) \<Longrightarrow>
     map g (filter Q (replace_first P y xs)) = map g (filter Q xs)"
  by (induction xs) auto

lemma find_append_new:
  "find P xs = None \<Longrightarrow> P y \<Longrightarrow> find P (xs @ [y]) = Some y"
  by (induction xs) (auto split: if_splits)

lemma same_transaction_assign:
  "same_transaction oid (sd_transaction_id sd) e \<Longrightarrow>
     same_transaction oid (sd_transaction_id sd) (assign e sd)"
  by (simp add: same_transaction_def assign_def)

lemma collect_id_assign [simp]: "os_collect_id (assign e sd) = os_collect_id e"
  by (simp add: assign_def)

lemma same_transaction_new:
  "same_transaction oid (sd_transaction_id sd) (new_OrderStatus oid sd)"
  by (simp add: same_transaction_def new_OrderStatus_def)

lemma assign_assign: "assign (assign e sd) sd = assign e sd"
  by (simp add: assign_def)

lemma assign_new:
  "sd_status sd \<noteq> Undefined \<Longrightarrow> sd_gateway sd \<noteq> Undefined \<Longrightarrow>
     assign (new_OrderStatus oid sd) sd = new_OrderStatus oid sd"
  by (simp add: assign_def new_OrderStatus_def)

lemma find_Some_P: "find P xs = Some x \<Longrightarrow> P x"
  by (induction xs) (auto split: if_splits)

lemma upsertStatus_existing:
  assumes "truthy_str (sd_transaction_id sd)"
      and "find (same_transaction oid (sd_transaction_id sd)) db = Some e"
  shows "upsertStatus db oid sd =
           (if accepted sd \<and> (\<exists>s. sd_status sd = Val s \<and> s \<in> set status_enum)
            then Inr (assign e sd, replace_first (same_transaction oid (sd_transaction_id sd)) (assign e sd) db)
            else Inl (ValidationError ''OrderStatus'' (invalid_paths (assign e sd))))"
proof -
  have "update_first (same_transaction oid (sd_transaction_id sd)) (write_back e (assign e sd)) db
          = replace_first (same_transaction oid (sd_transaction_id sd)) (assign e sd) db"
    using assms(2) by (rule update_first_loaded) (simp add: write_back_loaded)
  then show ?thesis
    using assms invalid_paths_assign [of e sd]
    by (auto simp: upsertStatus_def find_existing_def save_status_def save_existing_def
             split: list.splits)
qed

lemma upsertStatus_new:
  assumes "\<not> truthy_str (sd_transaction_id sd) \<or>
           find (same_transaction oid (sd_transaction_id sd)) db = None"
  shows "upsertStatus db oid sd =
           (if accepted sd \<and> (sd_status sd = Undefined \<or> (\<exists>s. sd_status sd = Val s \<and> s \<in> set status_enum))
            then Inr (new_OrderStatus oid sd, db @ [new_OrderStatus oid sd])
            else Inl (ValidationError ''OrderStatus'' (invalid_paths (new_OrderStatus oid sd))))"
  using assms invalid_paths_new [of oid sd]
  by (auto simp: upsertStatus_def find_existing_def save_status_def save_new_def
           split: list.splits)


lemma ex_new:
  "trim t = t \<Longrightarrow> new_OrderStatus 7 (ex_observation t s x) = ex_entry t s x"
  by (simp add: new_OrderStatus_def ex_observation_def ex_entry_def)

lemma ex_assign:
  "t \<noteq> [] \<Longrightarrow> trim t = t \<Longrightarrow>
     assign (ex_entry t s' x') (ex_observation t s x) = ex_entry t s x"
  by (simp add: assign_def ex_observation_def ex_entry_def)

lemma ex_valid: "0 \<le> x \<Longrightarrow> accepted (ex_observation t s x)"
  by (simp add: accepted_def ex_observation_def)

lemma trim_padded: "trim '' T1'' = ''T1''"
  by (simp add: trim_def is_space_def)

lemma padded_assign:
  "assign (ex_entry ''T1'' s' x') (ex_observation '' T1'' s x) = ex_entry ''T1'' s x"
  by (simp add: assign_def ex_observation_def ex_entry_def trim_padded)

lemma ex_observation_sel [simp]:
  "sd_status (ex_observation t s x) = Val s"
  "sd_transaction_id (ex_observation t s x) = (if t = [] then Undefined else Val t)"
  "sd_gateway (ex_observation t s x) = Val ''edviron''"
  "sd_order_amount (ex_observation t s x) = Val x"
  "sd_transaction_amount (ex_observation t s x) = Val x"
  by (simp_all add: ex_observation_def)

lemma ex_entry_sel [simp]:
  "os_status (ex_entry t s x) = Val s"
  "os_transaction_id (ex_entry t s x) = (if t = [] then Undefined else Val t)"
  "os_collect_id (ex_entry t s x) = 7"
  "os_order_amount (ex_entry t s x) = Val x"
  "os_transaction_amount (ex_entry t s x) = Val x"
  by (simp_all add: ex_entry_def)

text \<open>
  Claim C1, as stated, fails. The ledger of order 7 holds one entry, for transaction \<open>T1\<close>,
  with the terminal status \<open>completed\<close>. An observation for \<open>T1\<close> with status \<open>pending\<close>
  is applied: \<open>upsertStatus\<close> succeeds and the entry's status is \<open>pending\<close> afterwards, where
  the claim says it stays \<open>completed\<close>.
\<close>

theorem upsertStatus_regresses_terminal:
  "terminal ''completed'' \<and> \<not> terminal ''pending'' \<and>
   upsertStatus [ex_entry ''T1'' ''completed'' 100] 7 (ex_observation ''T1'' ''pending'' 100)
     = Inr (ex_entry ''T1'' ''pending'' 100, [ex_entry ''T1'' ''pending'' 100])"
proof -
  have "upsertStatus [ex_entry ''T1'' ''completed'' 100] 7 (ex_observation ''T1'' ''pending'' 100)
     = Inr (ex_entry ''T1'' ''pending'' 100, [ex_entry ''T1'' ''pending'' 100])"
    by (subst upsertStatus_existing [where e = "ex_entry ''T1'' ''completed'' 100"])
       (simp_all add: same_transaction_def ex_valid ex_assign status_enum_def)
  then show ?thesis by (simp add: terminal_def)
qed

text \<open>
  Claim C1, amended. When the observation's transaction id (not empty) matches an existing
  entry of the order whose status is terminal, and the observation carries a non-terminal status
  (\<open>created\<close> or \<open>pending\<close>) and passes the other validators of the schema (an order
  amount that is not negative, no negative transaction amount, no \<open>Invalid Date\<close> as payment
  time), \<open>upsertStatus\<close> succeeds, adds no entry, and overwrites every field of the entry
  with the observation's, the status included: the entry's status is the observation's
  non-terminal status afterwards.
\<close>

theorem upsertStatus_last_writer_wins:
  assumes "sd_transaction_id sd = Val T" and "T \<noteq> []"
      and "find (same_transaction oid (Val T)) db = Some e"
      and "os_status e = Val s" and "terminal s"
      and "sd_status sd = Val ''created'' \<or> sd_status sd = Val ''pending''"
      and "accepted sd"
  shows "\<exists>d db'. upsertStatus db oid sd = Inr (d, db') \<and>
           find (same_transaction oid (Val T)) db' = Some d \<and>
           length db' = length db \<and>
           d = assign e sd \<and> os_status d = sd_status sd \<and> isPending d"
proof -
  let ?P = "same_transaction oid (Val T)"
  have en: "\<exists>s. sd_status sd = Val s \<and> s \<in> set status_enum"
    using assms(6) by (auto simp: status_enum_def)
  have up: "upsertStatus db oid sd = Inr (assign e sd, replace_first ?P (assign e sd) db)"
    using upsertStatus_existing [of sd oid db e] assms(1,2,3,7) en by simp
  have P: "?P (assign e sd)"
    using same_transaction_assign [of oid sd e] find_Some_P [OF assms(3)] assms(1) by simp
  have "find ?P (replace_first ?P (assign e sd) db) = Some (assign e sd)"
    using find_replace_first [OF assms(3) P] .
  moreover have "os_status (assign e sd) = sd_status sd"
    by (simp add: assign_def)
  moreover have "isPending (assign e sd)"
    using assms(6) by (auto simp: isPending_def assign_def)
  ultimately show ?thesis
    using up by (simp add: length_replace_first)
qed

text \<open>Claim C1, amended: the theorem at the entry and the observation of the counterexample.\<close>

theorem upsertStatus_last_writer_wins_witness:
  "\<exists>d db'. upsertStatus [ex_entry ''T1'' ''completed'' 100] 7 (ex_observation ''T1'' ''pending'' 100)
       = Inr (d, db') \<and>
     find (same_transaction 7 (Val ''T1'')) db' = Some d \<and>
     length db' = length [ex_entry ''T1'' ''completed'' 100] \<and>
     d = assign (ex_entry ''T1'' ''completed'' 100) (ex_observation ''T1'' ''pending'' 100) \<and>
     os_status d = sd_status (ex_observation ''T1'' ''pending'' 100) \<and> isPending d"
  by (rule upsertStatus_last_writer_wins [where T = "''T1''" and s = "''completed''"])
     (simp_all add: same_transaction_def terminal_def ex_valid)


lemma ledger_keys_replace_first:
  assumes "find (same_transaction oid t) db = Some e" and "same_transaction oid t d"
  shows "ledger_keys (replace_first (same_transaction oid t) d db) = ledger_keys db"
  unfolding ledger_keys_def
  using assms(2) by (intro map_filter_replace_first) (simp add: same_transaction_def)

lemma ledger_keys_append:
  "ledger_keys (db @ [d]) =
     ledger_keys db @ (if truthy_str (os_transaction_id d) then [(os_collect_id d, os_transaction_id d)] else [])"
  by (simp add: ledger_keys_def)

lemma find_None_key:
  "find (same_transaction oid t) db = None \<Longrightarrow> (oid, trimmed t) \<notin> set (ledger_keys db)"
  by (auto simp: find_None_iff ledger_keys_def same_transaction_def)

lemma upsertStatus_keeps_distinct:
  assumes up: "upsertStatus db oid sd = Inr (d, db')" and dist: "distinct (ledger_keys db)"
  shows "distinct (ledger_keys db')"
proof (cases "truthy_str (sd_transaction_id sd)")
  case False
  then have "db' = db @ [new_OrderStatus oid sd]"
    using up upsertStatus_new [of sd oid db] by (auto split: if_splits)
  moreover have "\<not> truthy_str (os_transaction_id (new_OrderStatus oid sd))"
    using False truthy_trimmed by (auto simp: new_OrderStatus_def)
  ultimately show ?thesis using dist by (simp add: ledger_keys_append)
next
  case True
  let ?P = "same_transaction oid (sd_transaction_id sd)"
  show ?thesis
  proof (cases "find ?P db")
    case None
    then have "db' = db @ [new_OrderStatus oid sd]"
      using up upsertStatus_new [of sd oid db] by (auto split: if_splits)
    moreover have "os_transaction_id (new_OrderStatus oid sd) = trimmed (sd_transaction_id sd)"
      "os_collect_id (new_OrderStatus oid sd) = oid"
      by (simp_all add: new_OrderStatus_def)
    ultimately show ?thesis
      using dist find_None_key [OF None] by (simp add: ledger_keys_append)
  next
    case (Some e)
    then have "db' = replace_first ?P (assign e sd) db"
      using up True upsertStatus_existing [of sd oid db e] by (auto split: if_splits)
    moreover have "?P (assign e sd)"
      using same_transaction_assign find_Some_P [OF Some] by blast
    ultimately show ?thesis
      using dist ledger_keys_replace_first [OF Some] by simp
  qed
qed

lemma filter_append_new:
  "filter P xs = [] \<Longrightarrow> P y \<Longrightarrow> filter P (xs @ [y]) = [y]"
  by simp

lemma filter_empty_find: "filter P xs = [] \<Longrightarrow> find P xs = None"
  by (induction xs) (auto split: if_splits)

lemma upsertStatus_idem:
  assumes t: "truthy_str (sd_transaction_id sd)"
      and s: "sd_status sd \<noteq> Undefined" and g: "sd_gateway sd \<noteq> Undefined"
      and up: "upsertStatus db oid sd = Inr (d1, db1)"
  shows "upsertStatus db1 oid sd = Inr (d1, db1)"
proof -
  let ?P = "same_transaction oid (sd_transaction_id sd)"
  show ?thesis
  proof (cases "find ?P db")
    case None
    have r: "accepted sd \<and> (sd_status sd = Undefined \<or> (\<exists>s. sd_status sd = Val s \<and> s \<in> set status_enum))"
      "d1 = new_OrderStatus oid sd" "db1 = db @ [d1]"
      using up upsertStatus_new [of sd oid db] None by (auto split: if_splits)
    have f: "find ?P db1 = Some d1"
      using find_append_new [OF None same_transaction_new] r by simp
    have a: "assign d1 sd = d1" using assign_new [OF s g] r by simp
    have "replace_first ?P d1 db1 = db1" using replace_first_same [OF f] .
    then show ?thesis
      using upsertStatus_existing [OF t f] r s a by simp
  next
    case (Some e)
    have r: "accepted sd \<and> (\<exists>s. sd_status sd = Val s \<and> s \<in> set status_enum)"
      "d1 = assign e sd" "db1 = replace_first ?P d1 db"
      using up upsertStatus_existing [OF t Some] by (auto split: if_splits)
    have P: "?P d1" using same_transaction_assign find_Some_P [OF Some] r by blast
    have f: "find ?P db1 = Some d1"
      using find_replace_first [OF Some P] r by simp
    have a: "assign d1 sd = d1" using r by (simp add: assign_assign)
    have "replace_first ?P d1 db1 = db1" using replace_first_same [OF f] .
    then show ?thesis
      using upsertStatus_existing [OF t f] r a by simp
  qed
qed

lemma upsertStatus_result_found:
  assumes t: "truthy_str (sd_transaction_id sd)"
      and up: "upsertStatus db oid sd = Inr (d, db')"
  shows "find (same_transaction oid (sd_transaction_id sd)) db' = Some d"
proof (cases "find (same_transaction oid (sd_transaction_id sd)) db")
  case None
  then have "d = new_OrderStatus oid sd" "db' = db @ [d]"
    using up upsertStatus_new [of sd oid db] by (auto split: if_splits)
  then show ?thesis using find_append_new [OF None same_transaction_new] by simp
next
  case (Some e)
  then have r: "d = assign e sd" "db' = replace_first (same_transaction oid (sd_transaction_id sd)) d db"
    using up upsertStatus_existing [OF t Some] by (auto split: if_splits)
  moreover have "same_transaction oid (sd_transaction_id sd) d"
    using same_transaction_assign find_Some_P [OF Some] r by blast
  ultimately show ?thesis using find_replace_first [OF Some] by simp
qed


lemma replace_first_append_new:
  "find P xs = None \<Longrightarrow> P x \<Longrightarrow> replace_first P y (xs @ [x]) = xs @ [y]"
  by (induction xs) (auto split: if_splits)

lemma at_most_one_by_key:
  assumes "distinct (map f (filter Q xs))" and "\<And>x. P x \<Longrightarrow> Q x \<and> f x = k"
  shows "length (filter P xs) \<le> 1"
  using assms(1)
proof (induction xs)
  case Nil
  then show ?case by simp
next
  case (Cons x xs)
  show ?case
  proof (cases "P x")
    case False
    then show ?thesis using Cons by (auto split: if_splits)
  next
    case True
    then have "Q x" "f x = k" using assms(2) by auto
    then have "k \<notin> f ` set (filter Q xs)" using Cons.prems by auto
    then have "filter P xs = []"
      using assms(2) by (auto simp: filter_empty_conv)
    then show ?thesis using True by simp
  qed
qed

lemma distinct_keys_entries:
  "distinct (ledger_keys db) \<Longrightarrow> trim T \<noteq> [] \<Longrightarrow> length (entries_for db oid T) \<le> 1"
  unfolding ledger_keys_def entries_for_def
  by (erule at_most_one_by_key [where k = "(oid, Val (trim T))"]) (simp add: same_transaction_def)

lemma upsertStatus_twice_fresh:
  assumes fresh: "entries_for db oid T = []" and T: "T \<noteq> []" "sd_transaction_id sd = Val T"
      and st: "sd_status sd = Val ''completed''" and am: "accepted sd"
  shows "\<exists>d1 db1 d2 db2.
           upsertStatus db oid sd = Inr (d1, db1) \<and> upsertStatus db1 oid sd = Inr (d2, db2) \<and>
           entries_for db2 oid T = [d2] \<and> length db2 = Suc (length db) \<and>
           os_order_amount d2 = sd_order_amount sd \<and>
           os_transaction_amount d2 = sd_transaction_amount sd \<and>
           os_status d2 = Val ''completed''"
proof -
  let ?P = "same_transaction oid (Val T)"
  let ?d1 = "new_OrderStatus oid sd"
  let ?d2 = "assign ?d1 sd"
  have t: "truthy_str (sd_transaction_id sd)" using T by simp
  have en: "\<exists>s. sd_status sd = Val s \<and> s \<in> set status_enum"
    using st by (simp add: status_enum_def)
  have none: "find ?P db = None"
    using fresh filter_empty_find by (simp add: entries_for_def)
  have P1: "?P ?d1" using same_transaction_new [of oid sd] T by simp
  have P2: "?P ?d2" using same_transaction_assign [of oid sd ?d1] P1 T by simp
  have 1: "upsertStatus db oid sd = Inr (?d1, db @ [?d1])"
    using upsertStatus_new [of sd oid db] none T am en by auto
  have f: "find ?P (db @ [?d1]) = Some ?d1"
    using find_append_new [OF none P1] .
  have 2: "upsertStatus (db @ [?d1]) oid sd = Inr (?d2, db @ [?d2])"
    using upsertStatus_existing [of sd oid "db @ [?d1]" ?d1] t f T am en
      replace_first_append_new [OF none P1, of ?d2] by simp
  have e: "entries_for (db @ [?d2]) oid T = [?d2]"
    using fresh P2 by (simp add: entries_for_def)
  have v: "os_order_amount ?d2 = sd_order_amount sd"
    "os_transaction_amount ?d2 = sd_transaction_amount sd" "os_status ?d2 = Val ''completed''"
    using st by (simp_all add: assign_def)
  show ?thesis using 1 2 e v by simp
qed

lemma interleaved_ex:
  "upsertStatus_interleaved [] 7 (ex_observation ''T1'' ''completed'' 100)
       (ex_observation ''T1'' ''completed'' 100)
     = (Inr (ex_entry ''T1'' ''completed'' 100, [ex_entry ''T1'' ''completed'' 100]),
        Inr (ex_entry ''T1'' ''completed'' 100,
             [ex_entry ''T1'' ''completed'' 100, ex_entry ''T1'' ''completed'' 100]))"
proof -
  have v: "invalid_paths (ex_entry ''T1'' ''completed'' 100) = []"
    by (simp add: invalid_paths_def ex_entry_def status_enum_def)
  show ?thesis
    by (simp add: upsertStatus_interleaved_def find_existing_def save_status_def save_new_def
          ex_new v)
qed

text \<open>
  Claim C5, as stated, fails. The observation \<open>{transaction_id: T1, status: completed}\<close> with
  amount 100 is applied twice to order 7, which has no ledger entry, by two calls of
  \<open>upsertStatus\<close> of which the second looks the entry up before the first has written it
  (the lookup and the write are two steps, and no unique index covers order and transaction
  id): both calls succeed, and the order has two entries for \<open>T1\<close>.
\<close>

theorem upsertStatus_interleaved_two_entries:
  "snd (upsertStatus_interleaved [] 7 (ex_observation ''T1'' ''completed'' 100)
          (ex_observation ''T1'' ''completed'' 100))
     = Inr (ex_entry ''T1'' ''completed'' 100,
            [ex_entry ''T1'' ''completed'' 100, ex_entry ''T1'' ''completed'' 100]) \<and>
   entries_for [ex_entry ''T1'' ''completed'' 100, ex_entry ''T1'' ''completed'' 100] 7 ''T1''
     = [ex_entry ''T1'' ''completed'' 100, ex_entry ''T1'' ''completed'' 100] \<and>
   length (entries_for [ex_entry ''T1'' ''completed'' 100, ex_entry ''T1'' ''completed'' 100]
             7 ''T1'') = 2"
  by (simp add: interleaved_ex entries_for_def same_transaction_def)

text \<open>
  Claim C5, amended: for calls of \<open>upsertStatus\<close> that run one after the other. An
  observation with a transaction id \<open>T\<close> (not empty), status \<open>completed\<close>, amounts that
  are not negative and a payment time that is a date is applied twice to an order that has
  no entry for \<open>T\<close>, the second call after the first has returned: both applications
  succeed, the ledger has grown by one entry, and the order has exactly one entry for \<open>T\<close>,
  with the observation's amounts and status. And such a call keeps the merge keys distinct:
  if no two entries shared an order and a transaction id before, none do afterwards, so every
  order has at most one entry per transaction id. Transaction ids are compared trimmed, as
  they are stored.
\<close>

theorem upsertStatus_one_entry_per_transaction:
  "(entries_for db oid T = [] \<and> T \<noteq> [] \<and> sd_transaction_id sd = Val T \<and>
    sd_status sd = Val ''completed'' \<and> accepted sd \<longrightarrow>
      (\<exists>d1 db1 d2 db2.
         upsertStatus db oid sd = Inr (d1, db1) \<and> upsertStatus db1 oid sd = Inr (d2, db2) \<and>
         entries_for db2 oid T = [d2] \<and> length db2 = Suc (length db) \<and>
         os_order_amount d2 = sd_order_amount sd \<and>
         os_transaction_amount d2 = sd_transaction_amount sd \<and>
         os_status d2 = Val ''completed'')) \<and>
   (distinct (ledger_keys db) \<and> upsertStatus db oid sd = Inr (d, db') \<longrightarrow>
      distinct (ledger_keys db') \<and>
      (\<forall>oid' T'. trim T' \<noteq> [] \<longrightarrow> length (entries_for db' oid' T') \<le> 1))"
  using upsertStatus_twice_fresh [of db oid T sd]
    upsertStatus_keeps_distinct [of db oid sd d db'] distinct_keys_entries [of db']
  by blast

text \<open>Claim C5, amended: the theorem at order 7, whose ledger holds the placeholder without
  a transaction id (first part), or a \<open>completed\<close> entry for \<open>T1\<close> to which a padded
  \<open>T1\<close> is applied (second part).\<close>

theorem upsertStatus_one_entry_per_transaction_witness:
  "(\<exists>d1 db1 d2 db2.
      upsertStatus [ex_entry [] ''pending'' 100] 7 (ex_observation ''T1'' ''completed'' 100) = Inr (d1, db1) \<and>
      upsertStatus db1 7 (ex_observation ''T1'' ''completed'' 100) = Inr (d2, db2) \<and>
      entries_for db2 7 ''T1'' = [d2] \<and> length db2 = 2 \<and>
      os_order_amount d2 = Val 100 \<and> os_transaction_amount d2 = Val 100 \<and>
      os_status d2 = Val ''completed'') \<and>
   distinct (ledger_keys [ex_entry ''T1'' ''completed'' 100]) \<and>
   upsertStatus [ex_entry ''T1'' ''completed'' 100] 7 (ex_observation '' T1'' ''pending'' 100)
     = Inr (ex_entry ''T1'' ''pending'' 100, [ex_entry ''T1'' ''pending'' 100]) \<and>
   distinct (ledger_keys [ex_entry ''T1'' ''pending'' 100]) \<and>
   length (entries_for [ex_entry ''T1'' ''pending'' 100] 7 '' T1'') \<le> 1"
proof -
  have up: "upsertStatus [ex_entry ''T1'' ''completed'' 100] 7 (ex_observation '' T1'' ''pending'' 100)
     = Inr (ex_entry ''T1'' ''pending'' 100, [ex_entry ''T1'' ''pending'' 100])"
    by (subst upsertStatus_existing [where e = "ex_entry ''T1'' ''completed'' 100"])
       (simp_all add: same_transaction_def ex_valid padded_assign status_enum_def trim_padded)
  have d: "distinct (ledger_keys [ex_entry ''T1'' ''completed'' 100])"
    by (simp add: ledger_keys_def)
  have h: "entries_for [ex_entry [] ''pending'' 100] 7 ''T1'' = [] \<and> ''T1'' \<noteq> [] \<and>
      sd_transaction_id (ex_observation ''T1'' ''completed'' 100) = Val ''T1'' \<and>
      sd_status (ex_observation ''T1'' ''completed'' 100) = Val ''completed'' \<and>
      accepted (ex_observation ''T1'' ''completed'' 100)"
    by (simp add: entries_for_def same_transaction_def ex_valid)
  note a = upsertStatus_one_entry_per_transaction [THEN conjunct1, THEN mp, OF h]
  have b: "distinct (ledger_keys [ex_entry ''T1'' ''pending'' 100]) \<and>
      (\<forall>oid' T'. trim T' \<noteq> [] \<longrightarrow> length (entries_for [ex_entry ''T1'' ''pending'' 100] oid' T') \<le> 1)"
    using upsertStatus_one_entry_per_transaction [THEN conjunct2, THEN mp, OF conjI, OF d up] .
  from b have c: "length (entries_for [ex_entry ''T1'' ''pending'' 100] 7 '' T1'') \<le> 1"
    by (simp add: trim_padded)
  from a have a': "\<exists>d1 db1 d2 db2.
      upsertStatus [ex_entry [] ''pending'' 100] 7 (ex_observation ''T1'' ''completed'' 100) = Inr (d1, db1) \<and>
      upsertStatus db1 7 (ex_observation ''T1'' ''completed'' 100) = Inr (d2, db2) \<and>
      entries_for db2 7 ''T1'' = [d2] \<and> length db2 = 2 \<and>
      os_order_amount d2 = Val 100 \<and> os_transaction_amount d2 = Val 100 \<and>
      os_status d2 = Val ''completed''"
    by (simp add: numeral_2_eq_2)
  show ?thesis using a' b c d up by blast
qed


lemma upsertStatus_no_id_appends:
  assumes "\<not> truthy_str (sd_transaction_id sd)" and "upsertStatus db oid sd = Inr (d1, db1)"
  shows "db1 = db @ [d1] \<and> upsertStatus db1 oid sd = Inr (d1, db1 @ [d1])"
  using assms upsertStatus_new [of sd oid db] upsertStatus_new [of sd oid db1]
  by (auto split: if_splits)

lemma upsertStatus_status_written:
  assumes t: "truthy_str (sd_transaction_id sd2)" and same: "sd_transaction_id sd2 = sd_transaction_id sd1"
      and 1: "upsertStatus db oid sd1 = Inr (d1, db1)"
      and 2: "upsertStatus db1 oid sd2 = Inr (d2, db2)"
  shows "d2 = assign d1 sd2 \<and> os_status d2 = sd_status sd2 \<and>
         find (same_transaction oid (sd_transaction_id sd2)) db2 = Some d2 \<and>
         length db2 = length db1"
proof -
  have f: "find (same_transaction oid (sd_transaction_id sd2)) db1 = Some d1"
    using upsertStatus_result_found [OF _ 1] t same by simp
  have "d2 = assign d1 sd2" "db2 = replace_first (same_transaction oid (sd_transaction_id sd2)) d2 db1"
    using 2 upsertStatus_existing [OF t f] by (auto split: if_splits)
  then show ?thesis
    using upsertStatus_result_found [OF t 2]
    by (simp add: assign_def length_replace_first)
qed

text \<open>
  Claim C2, as stated, fails. An observation without a transaction id is applied twice to
  the empty ledger: after the first application the ledger has one entry, after the second
  it has two, where the claim says the second application changes nothing.
\<close>

theorem upsertStatus_twice_without_transaction_id:
  "upsertStatus [] 7 (ex_observation [] ''pending'' 100)
     = Inr (ex_entry [] ''pending'' 100, [ex_entry [] ''pending'' 100]) \<and>
   upsertStatus [ex_entry [] ''pending'' 100] 7 (ex_observation [] ''pending'' 100)
     = Inr (ex_entry [] ''pending'' 100, [ex_entry [] ''pending'' 100, ex_entry [] ''pending'' 100])"
proof -
  have "upsertStatus db 7 (ex_observation [] ''pending'' 100)
          = Inr (ex_entry [] ''pending'' 100, db @ [ex_entry [] ''pending'' 100])" for db
    by (subst upsertStatus_new) (simp_all add: ex_valid ex_new status_enum_def)
  from this [of "[]"] this [of "[ex_entry [] ''pending'' 100]"] show ?thesis by simp
qed

text \<open>
  Claim C2, amended. (1) An observation that carries a transaction id, a status and a
  gateway is idempotent: once applied, applying it again returns the same entry and leaves
  the ledger as it is. (2) An observation without a transaction id appends a new entry at
  every application. (3) Of two observations for the same transaction id the later one wins:
  after both, the entry has the fields of the second one, its status included, whatever the
  status of the first was.
\<close>

theorem upsertStatus_merge_rule:
  "(truthy_str (sd_transaction_id sd) \<and> sd_status sd \<noteq> Undefined \<and> sd_gateway sd \<noteq> Undefined \<and>
    upsertStatus db oid sd = Inr (d1, db1) \<longrightarrow> upsertStatus db1 oid sd = Inr (d1, db1)) \<and>
   (\<not> truthy_str (sd_transaction_id sd) \<and> upsertStatus db oid sd = Inr (d1, db1) \<longrightarrow>
      db1 = db @ [d1] \<and> upsertStatus db1 oid sd = Inr (d1, db1 @ [d1])) \<and>
   (truthy_str (sd_transaction_id sd2) \<and> sd_transaction_id sd2 = sd_transaction_id sd \<and>
    upsertStatus db oid sd = Inr (d1, db1) \<and> upsertStatus db1 oid sd2 = Inr (d2, db2) \<longrightarrow>
      d2 = assign d1 sd2 \<and> os_status d2 = sd_status sd2 \<and>
      find (same_transaction oid (sd_transaction_id sd2)) db2 = Some d2 \<and>
      length db2 = length db1)"
  using upsertStatus_idem [of sd db oid d1 db1] upsertStatus_no_id_appends [of sd db oid d1 db1]
    upsertStatus_status_written [of sd2 sd db oid d1 db1 d2 db2]
  by blast


text \<open>Claim C2, amended: the three parts of the theorem at order 7.\<close>

theorem upsertStatus_merge_rule_witness:
  "upsertStatus [] 7 (ex_observation ''T1'' ''completed'' 100)
     = Inr (ex_entry ''T1'' ''completed'' 100, [ex_entry ''T1'' ''completed'' 100]) \<and>
   upsertStatus [ex_entry ''T1'' ''completed'' 100] 7 (ex_observation ''T1'' ''completed'' 100)
     = Inr (ex_entry ''T1'' ''completed'' 100, [ex_entry ''T1'' ''completed'' 100]) \<and>
   upsertStatus [] 7 (ex_observation [] ''created'' 5)
     = Inr (ex_entry [] ''created'' 5, [ex_entry [] ''created'' 5]) \<and>
   upsertStatus [ex_entry [] ''created'' 5] 7 (ex_observation [] ''created'' 5)
     = Inr (ex_entry [] ''created'' 5, [ex_entry [] ''created'' 5, ex_entry [] ''created'' 5]) \<and>
   upsertStatus [ex_entry ''T1'' ''completed'' 100] 7 (ex_observation ''T1'' ''created'' 5)
     = Inr (ex_entry ''T1'' ''created'' 5, [ex_entry ''T1'' ''created'' 5]) \<and>
   os_status (ex_entry ''T1'' ''created'' 5) = sd_status (ex_observation ''T1'' ''created'' 5)"
proof -
  have new: "upsertStatus [] 7 (ex_observation t s x) = Inr (ex_entry t s x, [ex_entry t s x])"
    if "0 \<le> x" "s \<in> set status_enum" "trim t = t" for t s x
    using that by (subst upsertStatus_new) (simp_all add: ex_valid ex_new)
  have a: "upsertStatus [] 7 (ex_observation ''T1'' ''completed'' 100)
     = Inr (ex_entry ''T1'' ''completed'' 100, [ex_entry ''T1'' ''completed'' 100])"
    by (rule new) (simp_all add: status_enum_def)
  have b: "upsertStatus [] 7 (ex_observation [] ''created'' 5)
     = Inr (ex_entry [] ''created'' 5, [ex_entry [] ''created'' 5])"
    by (rule new) (simp_all add: status_enum_def)
  have c: "upsertStatus [ex_entry ''T1'' ''completed'' 100] 7 (ex_observation ''T1'' ''created'' 5)
     = Inr (ex_entry ''T1'' ''created'' 5, [ex_entry ''T1'' ''created'' 5])"
    by (subst upsertStatus_existing [where e = "ex_entry ''T1'' ''completed'' 100"])
       (simp_all add: same_transaction_def ex_valid ex_assign status_enum_def)
  have 1: "upsertStatus [ex_entry ''T1'' ''completed'' 100] 7 (ex_observation ''T1'' ''completed'' 100)
     = Inr (ex_entry ''T1'' ''completed'' 100, [ex_entry ''T1'' ''completed'' 100])"
    by (rule upsertStatus_merge_rule [where db = "[]", THEN conjunct1, THEN mp]) (simp add: a)
  have 2: "[ex_entry [] ''created'' 5] = [] @ [ex_entry [] ''created'' 5] \<and>
     upsertStatus [ex_entry [] ''created'' 5] 7 (ex_observation [] ''created'' 5)
     = Inr (ex_entry [] ''created'' 5, [ex_entry [] ''created'' 5] @ [ex_entry [] ''created'' 5])"
    by (rule upsertStatus_merge_rule [where db = "[]", THEN conjunct2, THEN conjunct1, THEN mp])
       (simp add: b)
  have 3: "ex_entry ''T1'' ''created'' 5
       = assign (ex_entry ''T1'' ''completed'' 100) (ex_observation ''T1'' ''created'' 5) \<and>
     os_status (ex_entry ''T1'' ''created'' 5) = sd_status (ex_observation ''T1'' ''created'' 5) \<and>
     find (same_transaction 7 (sd_transaction_id (ex_observation ''T1'' ''created'' 5)))
       [ex_entry ''T1'' ''created'' 5] = Some (ex_entry ''T1'' ''created'' 5) \<and>
     length [ex_entry ''T1'' ''created'' 5] = length [ex_entry ''T1'' ''completed'' 100]"
    by (rule upsertStatus_merge_rule [where sd = "ex_observation ''T1'' ''completed'' 100"
          and db = "[]", THEN conjunct2, THEN conjunct2, THEN mp])
       (simp add: a c)
  have w2: "upsertStatus [ex_entry [] ''created'' 5] 7 (ex_observation [] ''created'' 5)
     = Inr (ex_entry [] ''created'' 5, [ex_entry [] ''created'' 5, ex_entry [] ''created'' 5])"
    using 2 by simp
  have w3: "os_status (ex_entry ''T1'' ''created'' 5) = sd_status (ex_observation ''T1'' ''created'' 5)"
    using 3 by (rule conjunct2 [THEN conjunct1])
  show ?thesis using a b c 1 w2 w3 by (intro conjI)
qed



section \<open>Properties of the retry loop\<close>


lemma retry_loop_success:
  assumes "k \<le> maxRetries" and "operation k = Inr v"
      and "\<forall>j. attempt \<le> j \<and> j < k \<longrightarrow> operation j = Inl (err j)"
      and "attempt \<le> k"
  shows "retry_loop operation maxRetries baseDelay maxDelay attempt lastError delays =
           (Inr v, Suc k, delays @ map (backoff baseDelay maxDelay) [attempt..<k])"
  using assms
proof (induction "k - attempt" arbitrary: attempt lastError delays)
  case 0
  then have "attempt = k" by simp
  then show ?case using 0 by (simp add: retry_loop.simps)
next
  case (Suc n)
  then have lt: "attempt < k" by simp
  then have f: "operation attempt = Inl (err attempt)" using Suc.prems by simp
  have "retry_loop operation maxRetries baseDelay maxDelay (Suc attempt) (Some (err attempt))
          (delays @ [backoff baseDelay maxDelay attempt]) =
        (Inr v, Suc k, (delays @ [backoff baseDelay maxDelay attempt]) @
           map (backoff baseDelay maxDelay) [Suc attempt..<k])"
    using Suc.hyps(2) Suc.prems lt by (intro Suc.hyps(1)) auto
  then show ?case
    using lt f Suc.prems(1)
    by (subst retry_loop.simps) (simp add: backoff_def upt_conv_Cons)
qed

lemma retry_loop_failure:
  assumes "\<forall>j. attempt \<le> j \<and> j \<le> maxRetries \<longrightarrow> operation j = Inl (err j)"
      and "attempt \<le> maxRetries"
  shows "retry_loop operation maxRetries baseDelay maxDelay attempt lastError delays =
           (Inl (Some (err maxRetries)), Suc maxRetries,
            delays @ map (backoff baseDelay maxDelay) [attempt..<maxRetries])"
  using assms
proof (induction "maxRetries - attempt" arbitrary: attempt lastError delays)
  case 0
  then have "attempt = maxRetries" by simp
  then show ?case using 0 by (simp add: retry_loop.simps)
next
  case (Suc n)
  then have lt: "attempt < maxRetries" by simp
  then have f: "operation attempt = Inl (err attempt)" using Suc.prems by simp
  have "retry_loop operation maxRetries baseDelay maxDelay (Suc attempt) (Some (err attempt))
          (delays @ [backoff baseDelay maxDelay attempt]) =
        (Inl (Some (err maxRetries)), Suc maxRetries, (delays @ [backoff baseDelay maxDelay attempt]) @
           map (backoff baseDelay maxDelay) [Suc attempt..<maxRetries])"
    using Suc.hyps(2) Suc.prems lt by (intro Suc.hyps(1)) auto
  then show ?case
    using lt f
    by (subst retry_loop.simps) (simp add: backoff_def upt_conv_Cons)
qed

text \<open>
  Claim C4, amended. \<open>retryWithBackoff\<close> retries every failure alike, whatever the error
  is (a network error, a 5xx or a 4xx answer): (1) when each of the \<open>maxRetries + 1\<close>
  attempts fails, the operation has been called \<open>maxRetries + 1\<close> times, the delay after
  attempt \<open>k\<close> was \<open>min (baseDelay * 2 ^ k) maxDelay\<close>, and the last error is thrown; (2) when
  attempt \<open>k\<close> is the first to succeed, its value is returned after \<open>k + 1\<close> calls and the
  same delays; (3) a \<open>createCollectRequest\<close> whose every request is answered with a 4xx
  status sends four requests, 1000, 2000 and 4000 ms apart.
\<close>

theorem retryWithBackoff_retries_every_error:
  "((\<forall>j \<le> maxRetries. operation j = Inl (err j)) \<longrightarrow>
      retryWithBackoff operation maxRetries baseDelay maxDelay =
        (Inl (Some (err maxRetries)), Suc maxRetries,
         map (backoff baseDelay maxDelay) [0..<maxRetries])) \<and>
   (k \<le> maxRetries \<and> operation k = Inr v \<and> (\<forall>j < k. operation j = Inl (err j)) \<longrightarrow>
      retryWithBackoff operation maxRetries baseDelay maxDelay =
        (Inr v, Suc k, map (backoff baseDelay maxDelay) [0..<k])) \<and>
   ((\<forall>j \<le> 3. \<exists>e. post j = Inl e \<and> client_error e) \<longrightarrow>
      snd (createCollectRequest post) = (4, [1000, 2000, 4000]))"
proof (intro conjI impI)
  assume "\<forall>j \<le> maxRetries. operation j = Inl (err j)"
  then show "retryWithBackoff operation maxRetries baseDelay maxDelay =
        (Inl (Some (err maxRetries)), Suc maxRetries, map (backoff baseDelay maxDelay) [0..<maxRetries])"
    unfolding retryWithBackoff_def
    using retry_loop_failure [of 0 maxRetries operation err baseDelay maxDelay None "[]"] by simp
next
  assume "k \<le> maxRetries \<and> operation k = Inr v \<and> (\<forall>j < k. operation j = Inl (err j))"
  then show "retryWithBackoff operation maxRetries baseDelay maxDelay =
        (Inr v, Suc k, map (backoff baseDelay maxDelay) [0..<k])"
    unfolding retryWithBackoff_def
    using retry_loop_success [of k maxRetries operation v 0 err baseDelay maxDelay None "[]"] by simp
next
  assume a: "\<forall>j \<le> 3. \<exists>e. post j = Inl e \<and> client_error e"
  define err where "err j = (case post j of Inl e \<Rightarrow> e)" for j
  have "\<forall>j. 0 \<le> j \<and> j \<le> 3 \<longrightarrow> post j = Inl (err j)"
    using a by (auto simp: err_def)
  then have "retryWithBackoff post 3 1000 5000 =
      (Inl (Some (err 3)), Suc 3, map (backoff 1000 5000) [0..<3])"
    unfolding retryWithBackoff_def
    using retry_loop_failure [of 0 3 post err 1000 5000 None "[]"] by simp
  moreover have "map (backoff 1000 5000) [0..<3] = [1000, 2000, 4000]"
    by (simp add: backoff_def upt_conv_Cons numeral_3_eq_3)
  ultimately show "snd (createCollectRequest post) = (4, [1000, 2000, 4000])"
    by (simp add: createCollectRequest_def)
qed

text \<open>
  Claim C4, as stated, fails. The vendor answers every \<open>POST /create-collect-request\<close>
  with status 400, a client error: \<open>createCollectRequest\<close> sends four requests, where the
  claim says a call that fails with a 4xx response performs exactly one attempt.
\<close>

theorem createCollectRequest_retries_bad_request:
  "client_error bad_request \<and>
   snd (createCollectRequest (\<lambda>k. Inl bad_request)) = (4, [1000, 2000, 4000])"
proof -
  have "retryWithBackoff (\<lambda>k. Inl bad_request :: http_error + collect_response) 3 1000 5000 =
      (Inl (Some bad_request), Suc 3, map (backoff 1000 5000) [0..<3])"
    unfolding retryWithBackoff_def
    using retry_loop_failure [of 0 3 "\<lambda>k. Inl bad_request" "\<lambda>k. bad_request" 1000 5000 None "[]"]
    by simp
  moreover have "map (backoff 1000 5000) [0..<3] = [1000, 2000, 4000]"
    by (simp add: backoff_def upt_conv_Cons numeral_3_eq_3)
  ultimately show ?thesis
    by (simp add: createCollectRequest_def client_error_def bad_request_def)
qed


text \<open>Claim C4, amended: the theorem at a vendor that always answers 400, and at one that
  answers 503 twice and then accepts.\<close>

theorem retryWithBackoff_retries_every_error_witness:
  "retryWithBackoff (\<lambda>k. Inl bad_request :: http_error + collect_response) 3 1000 5000 =
     (Inl (Some bad_request), 4, [1000, 2000, 4000]) \<and>
   retryWithBackoff (\<lambda>k. if k < 2 then Inl unavailable else Inr ex_collect_response) 3 1000 5000 =
     (Inr ex_collect_response, 3, [1000, 2000]) \<and>
   snd (createCollectRequest (\<lambda>k. Inl bad_request)) = (4, [1000, 2000, 4000])"
proof -
  have b3: "map (backoff 1000 5000) [0..<3] = [1000, 2000, 4000]"
    by (simp add: backoff_def upt_conv_Cons numeral_3_eq_3)
  have b2: "map (backoff 1000 5000) [0..<2] = [1000, 2000]"
    by (simp add: backoff_def upt_conv_Cons numeral_2_eq_2)
  have 1: "retryWithBackoff (\<lambda>k. Inl bad_request :: http_error + collect_response) 3 1000 5000 =
     (Inl (Some bad_request), Suc 3, map (backoff 1000 5000) [0..<3])"
    by (rule retryWithBackoff_retries_every_error
          [where err = "\<lambda>k. bad_request", THEN conjunct1, THEN mp]) simp
  have 2: "retryWithBackoff (\<lambda>k. if k < 2 then Inl unavailable else Inr ex_collect_response) 3 1000 5000 =
     (Inr ex_collect_response, Suc 2, map (backoff 1000 5000) [0..<2])"
    by (rule retryWithBackoff_retries_every_error
          [where err = "\<lambda>k. unavailable", THEN conjunct2, THEN conjunct1, THEN mp]) simp
  have 3: "snd (createCollectRequest (\<lambda>k. Inl bad_request)) = (4, [1000, 2000, 4000])"
    by (rule retryWithBackoff_retries_every_error [THEN conjunct2, THEN conjunct2, THEN mp])
       (simp add: client_error_def bad_request_def)
  show ?thesis using 1 2 3 b2 b3 by simp
qed


section \<open>Properties of the payload parser\<close>


lemma split_no_separator: "c \<notin> set s \<Longrightarrow> split c s = [s]"
  by (induction s) auto

lemma split_composite: "split CHR ''/'' ''CRQ123/TXN456'' = [''CRQ123'', ''TXN456'']"
  by simp

lemma extract_payment_info_ids:
  "p_collect_request_id (extract_payment_info payload parsed) = p_collect_request_id parsed"
  "p_custom_order_id (extract_payment_info payload parsed) = p_custom_order_id parsed"
  "p_transaction_id (extract_payment_info payload parsed) =
     (if truthy_str (payment_transaction_id payload) then payment_transaction_id payload
      else p_transaction_id parsed)"
  by (auto simp: extract_payment_info_def payment_transaction_id_def Let_def split: js.splits)

lemma extract_flat_nested:
  "present (pl_order_info payload) \<Longrightarrow> extract_flat payload parsed = parsed"
  by (simp add: extract_flat_def)

lemma parse_ids:
  assumes "extract_order_info payload parsed_init = Inr parsed1" and "present (pl_order_info payload)"
  shows "\<exists>parsed. parseWebhookPayload now payload = Inr parsed \<and>
           p_custom_order_id parsed = p_custom_order_id parsed1 \<and>
           p_collect_request_id parsed = p_collect_request_id parsed1 \<and>
           p_transaction_id parsed =
             (if truthy_str (payment_transaction_id payload) then payment_transaction_id payload
              else p_transaction_id parsed1)"
  using assms
  by (simp add: parseWebhookPayload_def Let_def extract_flat_nested extract_payment_info_ids)

lemma extract_order_info_string:
  assumes "pl_order_info payload = Val oi" and "oi_order_id oi = Val (IdString s)" and "s \<noteq> []"
  shows "\<exists>parsed1. extract_order_info payload parsed_init = Inr parsed1 \<and>
           p_custom_order_id parsed1 = oi_custom_order_id oi \<and>
           (\<forall>a b. split CHR ''/'' s = [a, b] \<longrightarrow>
              p_collect_request_id parsed1 = Val a \<and> p_transaction_id parsed1 = Val b) \<and>
           ((\<forall>a b. split CHR ''/'' s \<noteq> [a, b]) \<longrightarrow>
              p_collect_request_id parsed1 = Val s \<and> p_transaction_id parsed1 = Null)"
  using assms
  by (auto simp: extract_order_info_def parsed_init_def Let_def split: list.splits)

text \<open>
  Claim C8, amended. For a payload whose \<open>order_info.order_id\<close> is a non-empty string,
  parsing succeeds. When the string splits at \<open>/\<close> into exactly two parts (as
  \<open>CRQ123/TXN456\<close> does) the first part is the collect request id, and the second part is
  the transaction id unless \<open>payment_info\<close> carries a transaction id of its own, which then
  takes precedence. When the string contains no \<open>/\<close> it is the collect request id whole, and
  the transaction id is the one of \<open>payment_info\<close> or, without one, \<open>null\<close>.
\<close>

theorem parseWebhookPayload_composite_order_id:
  assumes "pl_order_info payload = Val oi" and "oi_order_id oi = Val (IdString s)" and "s \<noteq> []"
  shows "\<exists>parsed. parseWebhookPayload now payload = Inr parsed \<and>
           (s = ''CRQ123/TXN456'' \<longrightarrow>
              p_collect_request_id parsed = Val ''CRQ123'' \<and>
              p_transaction_id parsed =
                (if truthy_str (payment_transaction_id payload) then payment_transaction_id payload
                 else Val ''TXN456'')) \<and>
           (\<forall>a b. split CHR ''/'' s = [a, b] \<longrightarrow>
              p_collect_request_id parsed = Val a \<and>
              p_transaction_id parsed =
                (if truthy_str (payment_transaction_id payload) then payment_transaction_id payload
                 else Val b)) \<and>
           (CHR ''/'' \<notin> set s \<longrightarrow>
              p_collect_request_id parsed = Val s \<and>
              p_transaction_id parsed =
                (if truthy_str (payment_transaction_id payload) then payment_transaction_id payload
                 else Null))"
proof -
  obtain parsed1 where 1: "extract_order_info payload parsed_init = Inr parsed1"
    and ab: "\<forall>a b. split CHR ''/'' s = [a, b] \<longrightarrow>
              p_collect_request_id parsed1 = Val a \<and> p_transaction_id parsed1 = Val b"
    and no: "(\<forall>a b. split CHR ''/'' s \<noteq> [a, b]) \<longrightarrow>
              p_collect_request_id parsed1 = Val s \<and> p_transaction_id parsed1 = Null"
    using extract_order_info_string [OF assms] by blast
  have pr: "present (pl_order_info payload)" using assms(1) by simp
  obtain parsed where 2: "parseWebhookPayload now payload = Inr parsed"
    and c: "p_collect_request_id parsed = p_collect_request_id parsed1"
    and t: "p_transaction_id parsed =
             (if truthy_str (payment_transaction_id payload) then payment_transaction_id payload
              else p_transaction_id parsed1)"
    using parse_ids [OF 1 pr] by blast
  have whole: "CHR ''/'' \<notin> set s \<Longrightarrow> \<forall>a b. split CHR ''/'' s \<noteq> [a, b]"
    by (simp add: split_no_separator)
  show ?thesis
    using 2 c t ab no whole split_composite by auto
qed


lemma composite_payload_sel:
  "pl_order_info (composite_payload s t) =
     Val \<lparr> oi_order_id = Val (IdString s), oi_custom_order_id = Undefined \<rparr>"
  "payment_transaction_id (composite_payload s t) = (if truthy_str t then t else Undefined)"
  by (simp_all add: composite_payload_def empty_payload_def payment_transaction_id_def
      empty_payment_info_def)

text \<open>
  Claim C8, as stated, fails. The payload has \<open>order_info.order_id = "CRQ123/TXN456"\<close> and
  \<open>payment_info.transaction_id = "PAY789"\<close>: the parsed result has the collect request id
  \<open>CRQ123\<close>, but its transaction id is \<open>PAY789\<close>, where the claim says \<open>TXN456\<close>.
\<close>

theorem parseWebhookPayload_payment_transaction_id_wins:
  "parseWebhookPayload 0 (composite_payload ''CRQ123/TXN456'' (Val ''PAY789'')) =
     Inr \<lparr> p_custom_order_id = Undefined, p_collect_request_id = Val ''CRQ123'',
           p_transaction_id = Val ''PAY789'', p_order_amount = Undefined,
           p_transaction_amount = Undefined, p_payment_mode = Undefined,
           p_payment_details = Undefined, p_bank_reference = Undefined,
           p_payment_message = Undefined, p_status = Val ''completed'',
           p_error_message = Undefined, p_payment_time = Val (DateNow 0),
           p_gateway = Val ''edviron'' \<rparr>"
  by (simp add: parseWebhookPayload_def extract_order_info_def extract_payment_info_def
      extract_flat_def composite_payload_def empty_payload_def empty_payment_info_def
      parsed_init_def or_number_def or_string_def Let_def)

text \<open>Claim C8, amended: the theorem at the order ids \<open>CRQ123/TXN456\<close> and \<open>CRQ123\<close>,
  without a transaction id in \<open>payment_info\<close>.\<close>

theorem parseWebhookPayload_composite_order_id_witness:
  "(\<exists>parsed. parseWebhookPayload 0 (composite_payload ''CRQ123/TXN456'' Undefined) = Inr parsed \<and>
      p_collect_request_id parsed = Val ''CRQ123'' \<and> p_transaction_id parsed = Val ''TXN456'') \<and>
   (\<exists>parsed. parseWebhookPayload 0 (composite_payload ''CRQ123'' Undefined) = Inr parsed \<and>
      p_collect_request_id parsed = Val ''CRQ123'' \<and> p_transaction_id parsed = Null)"
proof -
  have a: "\<exists>parsed. parseWebhookPayload 0 (composite_payload ''CRQ123/TXN456'' Undefined) = Inr parsed \<and>
      p_collect_request_id parsed = Val ''CRQ123'' \<and> p_transaction_id parsed = Val ''TXN456''"
    using parseWebhookPayload_composite_order_id
      [of "composite_payload ''CRQ123/TXN456'' Undefined" _ "''CRQ123/TXN456''" 0]
    by (simp add: composite_payload_sel)
  have b: "\<exists>parsed. parseWebhookPayload 0 (composite_payload ''CRQ123'' Undefined) = Inr parsed \<and>
      p_collect_request_id parsed = Val ''CRQ123'' \<and> p_transaction_id parsed = Null"
    using parseWebhookPayload_composite_order_id
      [of "composite_payload ''CRQ123'' Undefined" _ "''CRQ123''" 0]
    by (simp add: composite_payload_sel)
  show ?thesis using a b by (rule conjI)
qed


section \<open>Properties of webhook processing\<close>

lemma trim_unpadded:
  assumes "s \<noteq> []" and "\<not> is_space (hd s)" and "\<not> is_space (last s)"
  shows "trim s = s"
proof -
  have 1: "dropWhile is_space s = s"
    using assms by (simp add: dropWhile_eq_self_iff)
  have "hd (rev s) = last s" using assms(1) by (simp add: hd_rev)
  then have 2: "dropWhile is_space (rev s) = rev s"
    using assms by (simp add: dropWhile_eq_self_iff)
  show ?thesis by (simp add: trim_def 1 2)
qed

lemma fold_max_ge: "a \<le> fold max xs (a::nat)"
  by (induction xs arbitrary: a) (auto intro: order_trans [OF max.cobounded2])

lemma fold_max_mem: "x \<in> set xs \<Longrightarrow> x \<le> fold max xs (a::nat)"
proof (induction xs arbitrary: a)
  case Nil
  then show ?case by simp
next
  case (Cons y ys)
  show ?case
  proof (cases "x = y")
    case True
    have "y \<le> max y a" by simp
    also have "\<dots> \<le> fold max ys (max y a)" by (rule fold_max_ge)
    finally show ?thesis using True by simp
  next
    case False
    then show ?thesis using Cons by simp
  qed
qed

lemma fresh_id_new: "l \<in> set logs \<Longrightarrow> wl_id l \<noteq> fresh_id logs"
  using fold_max_mem [of "wl_id l" "map wl_id logs" 0] by (auto simp: fresh_id_def)

lemma save_log_last:
  "\<forall>l \<in> set pre. wl_id l \<noteq> wl_id d \<Longrightarrow> wl_id x = wl_id d \<Longrightarrow> save_log (pre @ [x]) d = pre @ [d]"
  by (induction pre) (auto simp: save_log_def)

lemma find_order_None:
  assumes "\<forall>ord \<in> set os. \<not> refers_to parsed ord"
  shows "find_order os parsed = None"
  using assms
  by (auto simp: find_order_def findByCustomOrderId_def findOne_collect_request_id_def
      find_None_iff refers_to_def split: js.splits)

lemma processWebhookData_unresolved:
  assumes "find_order (orders st) parsed = None"
  shows "processWebhookData st parsed webhookLog =
           (Inl (if \<not> truthy_str (p_custom_order_id parsed) \<and> \<not> truthy_str (p_collect_request_id parsed)
                 then NoOrderIdentifier
                 else OrderNotFound (p_custom_order_id parsed) (p_collect_request_id parsed)), st)"
  using assms by (simp add: processWebhookData_def)

lemma linked_fields [simp]:
  "wl_id (linked q order) = wl_id q"
  "wl_processing_status (linked q order) = wl_processing_status q"
  "wl_raw_payload (linked q order) = wl_raw_payload q"
  "wl_retries (linked q order) = wl_retries q"
  by (simp_all add: linked_def)

text \<open>What \<open>processWebhookData\<close> does to the collections, case by case.\<close>

lemma processWebhookData_cases:
  assumes "processWebhookData st parsed webhookLog = (r, st')"
  shows "(find_order (orders st) parsed = None \<and> st' = st \<and> (\<exists>e. r = Inl e)) \<or>
         (\<exists>order.
            find_order (orders st) parsed = Some order \<and>
            webhook_logs st' = save_log (webhook_logs st) (linked webhookLog order) \<and>
            ((\<exists>e. r = Inl e \<and> statuses st' = statuses st \<and> orders st' = orders st \<and>
                  upsertStatus (statuses st) (o_id order) (statusData_of parsed order) = Inl e) \<or>
             (\<exists>saved. r = Inr (linked webhookLog order) \<and>
                upsertStatus (statuses st) (o_id order) (statusData_of parsed order)
                  = Inr (saved, statuses st') \<and>
                orders st' =
                  (case p_status parsed of
                     Val status \<Rightarrow>
                       (if status \<in> set final_statuses
                        then save_order (orders st) (order\<lparr>o_status := status\<rparr>)
                        else orders st)
                   | _ \<Rightarrow> orders st))))"
proof (cases "find_order (orders st) parsed")
  case None
  then show ?thesis using assms processWebhookData_unresolved [OF None, of webhookLog] by auto
next
  case (Some order)
  then have ids: "\<not> (\<not> truthy_str (p_custom_order_id parsed) \<and> \<not> truthy_str (p_collect_request_id parsed))"
    by (auto simp: find_order_def split: if_splits)
  have fin: "s \<in> set final_statuses \<Longrightarrow> s \<in> set order_status_enum" for s
    by (auto simp: final_statuses_def order_status_enum_def)
  show ?thesis
    using assms Some ids
    by (auto simp: processWebhookData_def Let_def updateStatus_def fin linked_def
        split: sum.splits js.splits prod.splits if_splits)
qed

lemma createLog_eq:
  "createLog st d = (fst (createLog st d), st\<lparr>webhook_logs := webhook_logs st @ [fst (createLog st d)]\<rparr>)"
  by (simp add: createLog_def Let_def)

lemma createLog_fields:
  "wl_id (fst (createLog st d)) = (case wld_id d of Val i \<Rightarrow> i | _ \<Rightarrow> fresh_id (webhook_logs st))"
  "wl_processing_status (fst (createLog st d)) = wld_processing_status d"
  "wl_processing_message (fst (createLog st d)) = trimmed (wld_processing_message d)"
  "wl_raw_payload (fst (createLog st d)) = wld_raw_payload d"
  "wl_retries (fst (createLog st d)) = 0"
  by (simp_all add: createLog_def Let_def)

lemma webhook_failed_no_id:
  assumes "wld_id d = Undefined"
  shows "webhook_failed now st d err =
           (bad_request_response,
            st\<lparr>webhook_logs := webhook_logs st @
                 [fst (createLog st (d\<lparr>wld_processing_status := ''failed'',
                                        wld_processing_message := Val (message err)\<rparr>))]\<rparr>)"
  using assms
  by (simp add: webhook_failed_def Let_def bad_request_response_def)
     (subst createLog_eq, simp)

lemma queued_data_fields:
  "wld_id (with_parsed (webhookLogData_init now req) parsed) = Undefined"
  "wld_processing_status (with_parsed (webhookLogData_init now req) parsed) = ''queued''"
  "wld_raw_payload (with_parsed (webhookLogData_init now req) parsed) = rq_body req"
  "wld_id (webhookLogData_init now req) = Undefined"
  "wld_raw_payload (webhookLogData_init now req) = rq_body req"
  by (simp_all add: with_parsed_def webhookLogData_init_def)

text \<open>The handler called on its own; called as a method, on a payload that does not parse;
  and called as a method on one that does.\<close>

lemma processWebhook_alone:
  "processWebhook None now st req =
     (bad_request_response,
      st\<lparr>webhook_logs := webhook_logs st @
           [fst (createLog st ((webhookLogData_init now req)\<lparr>
                   wld_processing_status := ''failed'',
                   wld_processing_message := Val (message no_receiver)\<rparr>))]\<rparr>)"
  by (simp add: processWebhook_def webhook_failed_no_id queued_data_fields)

lemma processWebhook_unparsed:
  assumes "parseWebhookPayload now (rq_body req) = Inl e"
  shows "processWebhook (Some c) now st req =
     (bad_request_response,
      st\<lparr>webhook_logs := webhook_logs st @
           [fst (createLog st ((webhookLogData_init now req)\<lparr>
                   wld_processing_status := ''failed'',
                   wld_processing_message := Val (message e)\<rparr>))]\<rparr>)"
  using assms by (simp add: processWebhook_def webhook_failed_no_id queued_data_fields)

lemma processWebhook_parsed:
  assumes "parseWebhookPayload now (rq_body req) = Inr parsed"
  shows "processWebhook (Some c) now st req =
           (case processWebhookData
                  (snd (createLog st (with_parsed (webhookLogData_init now req) parsed)))
                  parsed
                  (fst (createLog st (with_parsed (webhookLogData_init now req) parsed))) of
             (Inl e, st2) \<Rightarrow>
               webhook_failed now st2 (with_parsed (webhookLogData_init now req) parsed) e
           | (Inr webhookLog1, st2) \<Rightarrow>
               (\<lparr> rsp_status = 200, rsp_success = True,
                  rsp_message = ''Webhook processed successfully'' \<rparr>,
                markAsProcessed now st2 webhookLog1
                  (Val ''Webhook processed successfully'')))"
  using assms by (simp add: processWebhook_def Let_def case_prod_beta)

lemma failed_record_fields:
  assumes "wld_id d = Undefined" and "wld_raw_payload d = rq_body req"
  shows "wl_id (fst (createLog st (d\<lparr>wld_processing_status := ''failed'',
                                     wld_processing_message := Val m\<rparr>)))
           = fresh_id (webhook_logs st)"
    and "wl_processing_status (fst (createLog st (d\<lparr>wld_processing_status := ''failed'',
                                     wld_processing_message := Val m\<rparr>))) = ''failed''"
    and "wl_processing_message (fst (createLog st (d\<lparr>wld_processing_status := ''failed'',
                                     wld_processing_message := Val m\<rparr>))) = Val (trim m)"
    and "wl_raw_payload (fst (createLog st (d\<lparr>wld_processing_status := ''failed'',
                                     wld_processing_message := Val m\<rparr>))) = rq_body req"
    and "wl_retries (fst (createLog st (d\<lparr>wld_processing_status := ''failed'',
                                     wld_processing_message := Val m\<rparr>))) = 0"
  using assms by (simp_all add: createLog_fields)

lemma processWebhookData_logs:
  assumes pd: "processWebhookData st parsed q = (r, st')"
      and logs: "webhook_logs st = pre @ [q]" and new: "\<forall>l \<in> set pre. wl_id l \<noteq> wl_id q"
  shows "\<exists>q1. webhook_logs st' = pre @ [q1] \<and> wl_id q1 = wl_id q \<and>
           wl_processing_status q1 = wl_processing_status q \<and>
           wl_raw_payload q1 = wl_raw_payload q \<and> wl_retries q1 = wl_retries q \<and>
           (\<forall>w. r = Inr w \<longrightarrow> w = q1)"
  using processWebhookData_cases [OF pd] logs new
  by (auto simp: save_log_last)

lemma processWebhook_failure:
  assumes parse: "parseWebhookPayload now (rq_body req) = Inr parsed"
      and fail: "\<not> rsp_success (fst (processWebhook (Some c) now st req))"
  shows "\<exists>e st2 queued failed.
           processWebhookData
             (snd (createLog st (with_parsed (webhookLogData_init now req) parsed))) parsed
             (fst (createLog st (with_parsed (webhookLogData_init now req) parsed))) = (Inl e, st2) \<and>
           processWebhook (Some c) now st req =
             (bad_request_response, st2\<lparr>webhook_logs := webhook_logs st @ [queued, failed]\<rparr>) \<and>
           webhook_logs st2 = webhook_logs st @ [queued] \<and>
           wl_id queued = fresh_id (webhook_logs st) \<and>
           wl_processing_status queued = ''queued'' \<and>
           wl_raw_payload queued = rq_body req \<and> wl_retries queued = 0 \<and>
           wl_id failed = fresh_id (webhook_logs st @ [queued]) \<and>
           wl_processing_status failed = ''failed'' \<and>
           wl_processing_message failed = Val (trim (message e)) \<and>
           wl_raw_payload failed = rq_body req \<and> wl_retries failed = 0"
proof -
  let ?d = "with_parsed (webhookLogData_init now req) parsed"
  let ?q = "fst (createLog st ?d)"
  let ?st1 = "snd (createLog st ?d)"
  obtain r st2 where pd: "processWebhookData ?st1 parsed ?q = (r, st2)" by force
  have "\<exists>e. r = Inl e"
    using fail pd by (cases r) (simp_all add: processWebhook_parsed [OF parse])
  then obtain e where r: "r = Inl e" ..
  have logs1: "webhook_logs ?st1 = webhook_logs st @ [?q]"
    by (subst createLog_eq) simp
  have idq: "wl_id ?q = fresh_id (webhook_logs st)"
    by (simp add: createLog_fields queued_data_fields)
  have new: "\<forall>l \<in> set (webhook_logs st). wl_id l \<noteq> wl_id ?q"
    using fresh_id_new idq by simp
  obtain q1 where q1: "webhook_logs st2 = webhook_logs st @ [q1]" "wl_id q1 = wl_id ?q"
      "wl_processing_status q1 = wl_processing_status ?q" "wl_raw_payload q1 = wl_raw_payload ?q"
      "wl_retries q1 = wl_retries ?q"
    using processWebhookData_logs [OF pd logs1 new] by blast
  let ?f = "fst (createLog st2 (?d\<lparr>wld_processing_status := ''failed'',
                                     wld_processing_message := Val (message e)\<rparr>))"
  have res: "processWebhook (Some c) now st req =
      (bad_request_response, st2\<lparr>webhook_logs := webhook_logs st2 @ [?f]\<rparr>)"
    using pd r by (simp add: processWebhook_parsed [OF parse] webhook_failed_no_id queued_data_fields)
  have f: "wl_id ?f = fresh_id (webhook_logs st @ [q1])" "wl_processing_status ?f = ''failed''"
      "wl_processing_message ?f = Val (trim (message e))" "wl_raw_payload ?f = rq_body req"
      "wl_retries ?f = 0"
    using q1(1) by (simp_all add: failed_record_fields queued_data_fields)
  have q: "wl_id q1 = fresh_id (webhook_logs st)" "wl_processing_status q1 = ''queued''"
      "wl_raw_payload q1 = rq_body req" "wl_retries q1 = 0"
    using q1 idq by (simp_all add: createLog_fields queued_data_fields)
  show ?thesis
    using pd r res q1(1) f q by (intro exI [of _ e] exI [of _ st2] exI [of _ q1] exI [of _ ?f]) simp
qed

lemma find_order_ids:
  "find_order os parsed = Some order \<Longrightarrow>
     truthy_str (p_custom_order_id parsed) \<or> truthy_str (p_collect_request_id parsed)"
  by (auto simp: find_order_def split: if_splits)


lemma processWebhookData_rejected:
  assumes "find_order (orders st) parsed = Some order"
      and "upsertStatus (statuses st) (o_id order) (statusData_of parsed order) = Inl e"
  shows "processWebhookData st parsed q =
           (Inl e, st\<lparr>webhook_logs := save_log (webhook_logs st) (linked q order)\<rparr>)"
  using assms find_order_ids [OF assms(1)]
  by (auto simp: processWebhookData_def Let_def linked_def)

lemma createLog_other:
  "orders (snd (createLog st d)) = orders st"
  "statuses (snd (createLog st d)) = statuses st"
  by (simp_all add: createLog_def Let_def)

lemma processWebhook_unresolved:
  assumes parse: "parseWebhookPayload now (rq_body req) = Inr parsed"
      and none: "find_order (orders st) parsed = None"
  shows "\<exists>queued failed.
           processWebhook (Some c) now st req =
             (bad_request_response, st\<lparr>webhook_logs := webhook_logs st @ [queued, failed]\<rparr>) \<and>
           wl_processing_status queued = ''queued'' \<and>
           wl_raw_payload failed = rq_body req \<and>
           wl_processing_status failed = ''failed'' \<and>
           wl_processing_message failed =
             Val (trim (message
               (if \<not> truthy_str (p_custom_order_id parsed) \<and> \<not> truthy_str (p_collect_request_id parsed)
                then NoOrderIdentifier
                else OrderNotFound (p_custom_order_id parsed) (p_collect_request_id parsed))))"
proof -
  let ?d = "with_parsed (webhookLogData_init now req) parsed"
  let ?st1 = "snd (createLog st ?d)"
  let ?e = "if \<not> truthy_str (p_custom_order_id parsed) \<and> \<not> truthy_str (p_collect_request_id parsed)
            then NoOrderIdentifier
            else OrderNotFound (p_custom_order_id parsed) (p_collect_request_id parsed)"
  have nf: "find_order (orders ?st1) parsed = None"
    using none by (simp add: createLog_other)
  have pd: "processWebhookData ?st1 parsed (fst (createLog st ?d)) = (Inl ?e, ?st1)"
    using processWebhookData_unresolved [OF nf] by simp
  have fail: "\<not> rsp_success (fst (processWebhook (Some c) now st req))"
    using pd
    by (simp add: processWebhook_parsed [OF parse] webhook_failed_no_id queued_data_fields
          bad_request_response_def)
  obtain e st2 queued failed where
    pd': "processWebhookData ?st1 parsed (fst (createLog st ?d)) = (Inl e, st2)"
    and res: "processWebhook (Some c) now st req =
             (bad_request_response, st2\<lparr>webhook_logs := webhook_logs st @ [queued, failed]\<rparr>)"
    and f: "wl_processing_status queued = ''queued''"
      "wl_processing_status failed = ''failed''"
      "wl_processing_message failed = Val (trim (message e))"
      "wl_raw_payload failed = rq_body req"
    using processWebhook_failure [OF parse fail] by blast
  have e: "e = ?e" and st2: "st2 = ?st1"
    using pd pd' by simp_all
  have "st2\<lparr>webhook_logs := webhook_logs st @ [queued, failed]\<rparr> =
        st\<lparr>webhook_logs := webhook_logs st @ [queued, failed]\<rparr>"
    unfolding st2 by (subst createLog_eq) simp
  then show ?thesis
    using res f e by (intro exI [of _ queued] exI [of _ failed]) simp
qed

text \<open>
  Claim C6. A webhook payload parses to an observation that names a custom order id or a
  collect request id, and no stored order has either. Then, whether the handler is called
  as a method of the controller or on its own (as the route calls it), the request is
  answered with status 400, the \<open>Order\<close> collection and the status ledger are exactly as
  before, and the last of the delivery records added holds the raw payload, the processing
  status \<open>failed\<close> and the error's message as the reason: ``Order not found for
  identifiers ...'' from the method, after the record it stored as \<open>queued\<close>; the message of
  the \<open>TypeError\<close> from the function called on its own, which stores no other record.
\<close>

theorem processWebhook_unresolved_order:
  assumes parse: "parseWebhookPayload now (rq_body req) = Inr parsed"
      and ref: "truthy_str (p_custom_order_id parsed) \<or> truthy_str (p_collect_request_id parsed)"
      and none: "\<forall>ord \<in> set (orders st). \<not> refers_to parsed ord"
  shows "\<exists>new failed.
           processWebhook this now st req =
             (\<lparr> rsp_status = 400, rsp_success = False, rsp_message = ''Webhook processing failed'' \<rparr>,
              st\<lparr>webhook_logs := webhook_logs st @ new @ [failed]\<rparr>) \<and>
           orders (snd (processWebhook this now st req)) = orders st \<and>
           statuses (snd (processWebhook this now st req)) = statuses st \<and>
           wl_raw_payload failed = rq_body req \<and>
           wl_processing_status failed = ''failed'' \<and>
           wl_processing_message failed =
             Val (trim (message
               (case this of
                  None \<Rightarrow> no_receiver
                | Some c \<Rightarrow>
                    OrderNotFound (p_custom_order_id parsed) (p_collect_request_id parsed)))) \<and>
           (case this of
              None \<Rightarrow> new = []
            | Some c \<Rightarrow> \<exists>queued. new = [queued] \<and> wl_processing_status queued = ''queued'')"
proof (cases this)
  case None
  let ?f = "fst (createLog st ((webhookLogData_init now req)\<lparr>
                   wld_processing_status := ''failed'',
                   wld_processing_message := Val (message no_receiver)\<rparr>))"
  have "processWebhook this now st req =
          (bad_request_response, st\<lparr>webhook_logs := webhook_logs st @ [] @ [?f]\<rparr>)"
    unfolding None by (simp add: processWebhook_alone)
  then show ?thesis
    using None
    by (intro exI [of _ "[]"] exI [of _ ?f])
       (simp add: bad_request_response_def failed_record_fields queued_data_fields)
next
  case (Some c)
  obtain queued failed where
    "processWebhook (Some c) now st req =
       (bad_request_response, st\<lparr>webhook_logs := webhook_logs st @ [queued, failed]\<rparr>)"
    "wl_processing_status queued = ''queued''"
    "wl_raw_payload failed = rq_body req"
    "wl_processing_status failed = ''failed''"
    "wl_processing_message failed =
       Val (trim (message
         (if \<not> truthy_str (p_custom_order_id parsed) \<and> \<not> truthy_str (p_collect_request_id parsed)
          then NoOrderIdentifier
          else OrderNotFound (p_custom_order_id parsed) (p_collect_request_id parsed))))"
    using processWebhook_unresolved [OF parse find_order_None [OF none]] by blast
  then show ?thesis
    using Some ref
    by (intro exI [of _ "[queued]"] exI [of _ failed]) (auto simp: bad_request_response_def)
qed

text \<open>
  Claim C10. A request fails. The object \<open>webhookLogData\<close> has no \<open>_id\<close>, before and after
  the parsed observation is put into it, so the failure handler always takes its second
  branch and stores a new record with status \<open>failed\<close>; no stored record is changed. When
  the handler was called as a method and the payload had parsed, the delivery record was
  stored with status \<open>queued\<close> before the failure: afterwards the delivery records are the
  old ones followed by two new ones for the same payload, the first still \<open>queued\<close> with
  no retry counted, the second, under another id, \<open>failed\<close> with the error's message. When
  the handler was called on its own, or the payload did not parse, nothing was stored before
  the failure and the \<open>failed\<close> record is the only new one.
\<close>

theorem processWebhook_queued_record_stays_queued:
  assumes fail: "\<not> rsp_success (fst (processWebhook this now st req))"
  shows "wld_id (webhookLogData_init now req) = Undefined \<and>
         wld_id (with_parsed (webhookLogData_init now req) parsed) = Undefined \<and>
         (this = Some c \<and> parseWebhookPayload now (rq_body req) = Inr parsed \<longrightarrow>
            (\<exists>queued failed e.
               webhook_logs (snd (processWebhook this now st req))
                 = webhook_logs st @ [queued, failed] \<and>
               wl_id queued = fresh_id (webhook_logs st) \<and>
               wl_raw_payload queued = rq_body req \<and>
               wl_processing_status queued = ''queued'' \<and> wl_retries queued = 0 \<and>
               wl_id failed \<noteq> wl_id queued \<and>
               wl_raw_payload failed = rq_body req \<and>
               wl_processing_status failed = ''failed'' \<and>
               wl_processing_message failed = Val (trim (message e)) \<and> wl_retries failed = 0)) \<and>
         (this = None \<or> this = Some c \<and> parseWebhookPayload now (rq_body req) = Inl err \<longrightarrow>
            (\<exists>failed.
               webhook_logs (snd (processWebhook this now st req)) = webhook_logs st @ [failed] \<and>
               wl_id failed = fresh_id (webhook_logs st) \<and>
               wl_raw_payload failed = rq_body req \<and>
               wl_processing_status failed = ''failed'' \<and>
               wl_processing_message failed =
                 Val (trim (message (if this = None then no_receiver else err))) \<and>
               wl_retries failed = 0))"
proof (intro conjI impI)
  assume h: "this = Some c \<and> parseWebhookPayload now (rq_body req) = Inr parsed"
  then have parse: "parseWebhookPayload now (rq_body req) = Inr parsed"
    and fail': "\<not> rsp_success (fst (processWebhook (Some c) now st req))"
    using fail by simp_all
  obtain e st2 queued failed where
    res: "processWebhook (Some c) now st req =
             (bad_request_response, st2\<lparr>webhook_logs := webhook_logs st @ [queued, failed]\<rparr>)"
    and q: "wl_id queued = fresh_id (webhook_logs st)" "wl_processing_status queued = ''queued''"
      "wl_raw_payload queued = rq_body req" "wl_retries queued = 0"
    and f: "wl_id failed = fresh_id (webhook_logs st @ [queued])"
      "wl_processing_status failed = ''failed''"
      "wl_processing_message failed = Val (trim (message e))"
      "wl_raw_payload failed = rq_body req" "wl_retries failed = 0"
    using processWebhook_failure [OF parse fail'] by blast
  have "wl_id queued \<noteq> fresh_id (webhook_logs st @ [queued])"
    by (rule fresh_id_new) simp
  then have "wl_id failed \<noteq> wl_id queued" using f(1) by simp
  then show "\<exists>queued failed e.
               webhook_logs (snd (processWebhook this now st req))
                 = webhook_logs st @ [queued, failed] \<and>
               wl_id queued = fresh_id (webhook_logs st) \<and>
               wl_raw_payload queued = rq_body req \<and>
               wl_processing_status queued = ''queued'' \<and> wl_retries queued = 0 \<and>
               wl_id failed \<noteq> wl_id queued \<and>
               wl_raw_payload failed = rq_body req \<and>
               wl_processing_status failed = ''failed'' \<and>
               wl_processing_message failed = Val (trim (message e)) \<and> wl_retries failed = 0"
    using h res q f
    by (auto intro!: exI [of _ queued] exI [of _ failed] exI [of _ e])
next
  assume h: "this = None \<or> this = Some c \<and> parseWebhookPayload now (rq_body req) = Inl err"
  let ?m = "message (if this = None then no_receiver else err)"
  let ?f = "fst (createLog st ((webhookLogData_init now req)\<lparr>
                   wld_processing_status := ''failed'',
                   wld_processing_message := Val ?m\<rparr>))"
  have "processWebhook this now st req =
          (bad_request_response, st\<lparr>webhook_logs := webhook_logs st @ [?f]\<rparr>)"
    using h processWebhook_alone [of now st req] processWebhook_unparsed [of now req err c st]
    by auto
  then show "\<exists>failed.
               webhook_logs (snd (processWebhook this now st req)) = webhook_logs st @ [failed] \<and>
               wl_id failed = fresh_id (webhook_logs st) \<and>
               wl_raw_payload failed = rq_body req \<and>
               wl_processing_status failed = ''failed'' \<and>
               wl_processing_message failed = Val (trim ?m) \<and>
               wl_retries failed = 0"
    by (intro exI [of _ ?f]) (simp add: failed_record_fields queued_data_fields)
qed (simp_all add: queued_data_fields)

lemma parse_flat_request:
  "parseWebhookPayload now (rq_body (flat_request c s t)) = Inr (flat_parsed now c s t)"
  by (simp add: parseWebhookPayload_def extract_order_info_def extract_payment_info_def
      extract_flat_def flat_request_def flat_parsed_def empty_payload_def
      parsed_init_def or_number_def or_string_def Let_def)

lemma trim_order_ids: "trim ''ORD-1'' = ''ORD-1''" "trim ''ORD-404'' = ''ORD-404''"
  by (simp_all add: trim_def is_space_def)

lemma trim_messages:
  "trim ''Order not found for identifiers: custom_order_id=ORD-404, collect_request_id=undefined'' =
     ''Order not found for identifiers: custom_order_id=ORD-404, collect_request_id=undefined''"
  "trim (message no_receiver) = message no_receiver"
  by (simp_all add: trim_def is_space_def no_receiver_def)

lemma find_order_ex:
  "find_order [ex_order] (flat_parsed now ''ORD-1'' s t) = Some ex_order"
  "find_order [ex_order] (flat_parsed now ''ORD-404'' s t) = None"
  by (simp_all add: find_order_def findByCustomOrderId_def ex_order_def flat_parsed_def
        trim_order_ids)

lemma flat_parsed_sel [simp]:
  "p_custom_order_id (flat_parsed now c s t) = Val c"
  "p_collect_request_id (flat_parsed now c s t) = Undefined"
  "p_status (flat_parsed now c s t) = Val s"
  "p_transaction_id (flat_parsed now c s t) = Val t"
  by (simp_all add: flat_parsed_def)

lemma ex_store_sel [simp]:
  "orders ex_store = [ex_order]" "statuses ex_store = []" "webhook_logs ex_store = []"
  by (simp_all add: ex_store_def)

lemma no_reference_ex: "\<forall>ord \<in> set (orders ex_store). \<not> refers_to (flat_parsed 0 ''ORD-404'' s t) ord"
  by (simp add: refers_to_def ex_order_def trim_order_ids)

text \<open>Claim C6: the theorem at a payload for the unknown order \<open>ORD-404\<close>, handled by the
  method and by the route.\<close>

theorem processWebhook_unresolved_order_witness:
  "(\<exists>queued failed.
     processWebhook (Some WebhookController) 0 ex_store (flat_request ''ORD-404'' ''completed'' ''T1'') =
       (\<lparr> rsp_status = 400, rsp_success = False, rsp_message = ''Webhook processing failed'' \<rparr>,
        ex_store\<lparr>webhook_logs := [queued, failed]\<rparr>) \<and>
     wl_processing_status queued = ''queued'' \<and>
     wl_raw_payload failed = rq_body (flat_request ''ORD-404'' ''completed'' ''T1'') \<and>
     wl_processing_status failed = ''failed'' \<and>
     wl_processing_message failed =
       Val ''Order not found for identifiers: custom_order_id=ORD-404, collect_request_id=undefined'') \<and>
   (\<exists>failed.
     webhook_route 0 ex_store (flat_request ''ORD-404'' ''completed'' ''T1'') =
       (\<lparr> rsp_status = 400, rsp_success = False, rsp_message = ''Webhook processing failed'' \<rparr>,
        ex_store\<lparr>webhook_logs := [failed]\<rparr>) \<and>
     wl_raw_payload failed = rq_body (flat_request ''ORD-404'' ''completed'' ''T1'') \<and>
     wl_processing_status failed = ''failed'' \<and>
     wl_processing_message failed = Val (message no_receiver))"
proof -
  note t = processWebhook_unresolved_order
    [where now = 0 and st = ex_store and req = "flat_request ''ORD-404'' ''completed'' ''T1''"
       and parsed = "flat_parsed 0 ''ORD-404'' ''completed'' ''T1''",
     OF parse_flat_request _ no_reference_ex]
  have a: "truthy_str (p_custom_order_id (flat_parsed 0 ''ORD-404'' ''completed'' ''T1'')) \<or>
      truthy_str (p_collect_request_id (flat_parsed 0 ''ORD-404'' ''completed'' ''T1''))"
    by simp
  from t [where this = "Some WebhookController", OF a]
  obtain new failed where r:
    "processWebhook (Some WebhookController) 0 ex_store (flat_request ''ORD-404'' ''completed'' ''T1'') =
       (\<lparr> rsp_status = 400, rsp_success = False, rsp_message = ''Webhook processing failed'' \<rparr>,
        ex_store\<lparr>webhook_logs := new @ [failed]\<rparr>)"
    "wl_raw_payload failed = rq_body (flat_request ''ORD-404'' ''completed'' ''T1'')"
    "wl_processing_status failed = ''failed''"
    "wl_processing_message failed =
       Val ''Order not found for identifiers: custom_order_id=ORD-404, collect_request_id=undefined''"
    "\<exists>queued. new = [queued] \<and> wl_processing_status queued = ''queued''"
    by (auto simp: trim_messages)
  then obtain queued where q: "new = [queued]" "wl_processing_status queued = ''queued''"
    by blast
  have 1: "\<exists>queued failed.
     processWebhook (Some WebhookController) 0 ex_store (flat_request ''ORD-404'' ''completed'' ''T1'') =
       (\<lparr> rsp_status = 400, rsp_success = False, rsp_message = ''Webhook processing failed'' \<rparr>,
        ex_store\<lparr>webhook_logs := [queued, failed]\<rparr>) \<and>
     wl_processing_status queued = ''queued'' \<and>
     wl_raw_payload failed = rq_body (flat_request ''ORD-404'' ''completed'' ''T1'') \<and>
     wl_processing_status failed = ''failed'' \<and>
     wl_processing_message failed =
       Val ''Order not found for identifiers: custom_order_id=ORD-404, collect_request_id=undefined''"
    using r q by (intro exI [of _ queued] exI [of _ failed]) simp
  from t [where this = None, OF a]
  obtain new' failed' where r':
    "processWebhook None 0 ex_store (flat_request ''ORD-404'' ''completed'' ''T1'') =
       (\<lparr> rsp_status = 400, rsp_success = False, rsp_message = ''Webhook processing failed'' \<rparr>,
        ex_store\<lparr>webhook_logs := new' @ [failed']\<rparr>)"
    "wl_raw_payload failed' = rq_body (flat_request ''ORD-404'' ''completed'' ''T1'')"
    "wl_processing_status failed' = ''failed''"
    "wl_processing_message failed' = Val (message no_receiver)"
    "new' = []"
    by (auto simp: trim_messages)
  have 2: "\<exists>failed.
     webhook_route 0 ex_store (flat_request ''ORD-404'' ''completed'' ''T1'') =
       (\<lparr> rsp_status = 400, rsp_success = False, rsp_message = ''Webhook processing failed'' \<rparr>,
        ex_store\<lparr>webhook_logs := [failed]\<rparr>) \<and>
     wl_raw_payload failed = rq_body (flat_request ''ORD-404'' ''completed'' ''T1'') \<and>
     wl_processing_status failed = ''failed'' \<and>
     wl_processing_message failed = Val (message no_receiver)"
    using r' by (intro exI [of _ failed']) (simp add: webhook_route_def)
  show ?thesis using 1 2 by (rule conjI)
qed

lemma statusData_flat:
  "statusData_of (flat_parsed now c s t) ex_order =
     \<lparr> sd_order_amount = Val 100, sd_transaction_amount = Undefined, sd_payment_mode = Undefined,
       sd_payment_details = Undefined, sd_bank_reference = Undefined,
       sd_payment_message = Undefined, sd_status = Val s, sd_error_message = Undefined,
       sd_payment_time = Val (DateNow now), sd_transaction_id = Val t,
       sd_gateway = Val ''edviron'', sd_vendor_data = Val (FromWebhook (flat_parsed now c s t)) \<rparr>"
  by (simp add: statusData_of_def flat_parsed_def ex_order_def or_number_def)

lemma ex_order_sel [simp]: "o_id ex_order = 7" "o_status ex_order = ''created''"
  by (simp_all add: ex_order_def)

lemma upsert_flat:
  "upsertStatus [] 7 (statusData_of (flat_parsed now c s t) ex_order) =
     (if s \<in> set status_enum
      then Inr (flat_entry now c s t, [flat_entry now c s t])
      else Inl (ValidationError ''OrderStatus'' [''status'']))"
proof -
  have n: "new_OrderStatus 7 (statusData_of (flat_parsed now c s t) ex_order) = flat_entry now c s t"
    unfolding statusData_flat by (simp add: new_OrderStatus_def flat_entry_def)
  have v: "accepted (statusData_of (flat_parsed now c s t) ex_order)"
    unfolding statusData_flat by (simp add: accepted_def)
  have s: "sd_status (statusData_of (flat_parsed now c s t) ex_order) = Val s"
    unfolding statusData_flat by simp
  have i: "s \<notin> set status_enum \<Longrightarrow> invalid_paths (flat_entry now c s t) = [''status'']"
    by (simp add: invalid_paths_def flat_entry_def)
  show ?thesis
    by (subst upsertStatus_new) (simp_all add: n v s i)
qed

lemma queued_store_sel [simp]:
  "orders (queued_store now c s t) = [ex_order]" "statuses (queued_store now c s t) = []"
  "webhook_logs (queued_store now c s t) = [queued_log now c s t]"
  by (simp_all add: queued_store_def queued_log_def createLog_def Let_def)


lemma processWebhookData_flat_rejected:
  assumes "s \<notin> set status_enum"
  shows "fst (processWebhookData (queued_store now ''ORD-1'' s t) (flat_parsed now ''ORD-1'' s t)
                (queued_log now ''ORD-1'' s t))
           = Inl (ValidationError ''OrderStatus'' [''status''])"
    and "statuses (snd (processWebhookData (queued_store now ''ORD-1'' s t)
                          (flat_parsed now ''ORD-1'' s t) (queued_log now ''ORD-1'' s t))) = []"
proof -
  have f: "find_order (orders (queued_store now ''ORD-1'' s t)) (flat_parsed now ''ORD-1'' s t)
             = Some ex_order"
    by (simp add: find_order_ex)
  have u: "upsertStatus (statuses (queued_store now ''ORD-1'' s t)) (o_id ex_order)
             (statusData_of (flat_parsed now ''ORD-1'' s t) ex_order)
           = Inl (ValidationError ''OrderStatus'' [''status''])"
    using assms by (simp add: upsert_flat)
  note r = processWebhookData_rejected [OF f u, of "queued_log now ''ORD-1'' s t"]
  show "fst (processWebhookData (queued_store now ''ORD-1'' s t) (flat_parsed now ''ORD-1'' s t)
                (queued_log now ''ORD-1'' s t))
           = Inl (ValidationError ''OrderStatus'' [''status''])"
    and "statuses (snd (processWebhookData (queued_store now ''ORD-1'' s t)
                          (flat_parsed now ''ORD-1'' s t) (queued_log now ''ORD-1'' s t))) = []"
    by (simp_all add: r)
qed

lemma processWebhook_flat_rejected:
  assumes "s \<notin> set status_enum"
  shows "\<not> rsp_success (fst (processWebhook (Some c) now ex_store (flat_request ''ORD-1'' s t)))"
proof -
  obtain r st2 where pd:
    "processWebhookData (queued_store now ''ORD-1'' s t) (flat_parsed now ''ORD-1'' s t)
       (queued_log now ''ORD-1'' s t) = (r, st2)"
    by force
  have r: "r = Inl (ValidationError ''OrderStatus'' [''status''])"
    using processWebhookData_flat_rejected(1) [OF assms, of now t] pd by simp
  have "processWebhook (Some c) now ex_store (flat_request ''ORD-1'' s t) =
          webhook_failed now st2
            (with_parsed (webhookLogData_init now (flat_request ''ORD-1'' s t))
               (flat_parsed now ''ORD-1'' s t))
            (ValidationError ''OrderStatus'' [''status''])"
    using pd r
    by (simp add: processWebhook_parsed [OF parse_flat_request]
          queued_store_def [symmetric] queued_log_def [symmetric])
  then show ?thesis
    by (simp add: webhook_failed_no_id queued_data_fields bad_request_response_def)
qed

text \<open>Claim C10: the theorem at a payload for order \<open>ORD-1\<close> whose status \<open>SUCCESS\<close> the
  ledger schema rejects, a failure after the order was resolved, handled by the method;
  and at the same payload handled by the route.\<close>

theorem processWebhook_queued_record_stays_queued_witness:
  "(\<exists>queued failed e.
      webhook_logs (snd (processWebhook (Some WebhookController) 0 ex_store
                           (flat_request ''ORD-1'' ''SUCCESS'' ''T1'')))
        = webhook_logs ex_store @ [queued, failed] \<and>
      wl_id queued = fresh_id (webhook_logs ex_store) \<and>
      wl_raw_payload queued = rq_body (flat_request ''ORD-1'' ''SUCCESS'' ''T1'') \<and>
      wl_processing_status queued = ''queued'' \<and> wl_retries queued = 0 \<and>
      wl_id failed \<noteq> wl_id queued \<and>
      wl_raw_payload failed = rq_body (flat_request ''ORD-1'' ''SUCCESS'' ''T1'') \<and>
      wl_processing_status failed = ''failed'' \<and>
      wl_processing_message failed = Val (trim (message e)) \<and> wl_retries failed = 0) \<and>
   (\<exists>failed.
      webhook_logs (snd (webhook_route 0 ex_store (flat_request ''ORD-1'' ''SUCCESS'' ''T1'')))
        = webhook_logs ex_store @ [failed] \<and>
      wl_raw_payload failed = rq_body (flat_request ''ORD-1'' ''SUCCESS'' ''T1'') \<and>
      wl_processing_status failed = ''failed'' \<and>
      wl_processing_message failed = Val (message no_receiver) \<and> wl_retries failed = 0)"
proof -
  have f1: "\<not> rsp_success (fst (processWebhook (Some WebhookController) 0 ex_store
                (flat_request ''ORD-1'' ''SUCCESS'' ''T1'')))"
    by (rule processWebhook_flat_rejected) (simp add: status_enum_def)
  have f2: "\<not> rsp_success (fst (processWebhook None 0 ex_store
                (flat_request ''ORD-1'' ''SUCCESS'' ''T1'')))"
    by (simp add: processWebhook_alone bad_request_response_def)
  note a = processWebhook_queued_record_stays_queued
    [where c = WebhookController and parsed = "flat_parsed 0 ''ORD-1'' ''SUCCESS'' ''T1''",
     OF f1, THEN conjunct2, THEN conjunct2, THEN conjunct1, THEN mp]
  note b = processWebhook_queued_record_stays_queued
    [OF f2, THEN conjunct2, THEN conjunct2, THEN conjunct2, THEN mp]
  have 1: "\<exists>queued failed e.
      webhook_logs (snd (processWebhook (Some WebhookController) 0 ex_store
                           (flat_request ''ORD-1'' ''SUCCESS'' ''T1'')))
        = webhook_logs ex_store @ [queued, failed] \<and>
      wl_id queued = fresh_id (webhook_logs ex_store) \<and>
      wl_raw_payload queued = rq_body (flat_request ''ORD-1'' ''SUCCESS'' ''T1'') \<and>
      wl_processing_status queued = ''queued'' \<and> wl_retries queued = 0 \<and>
      wl_id failed \<noteq> wl_id queued \<and>
      wl_raw_payload failed = rq_body (flat_request ''ORD-1'' ''SUCCESS'' ''T1'') \<and>
      wl_processing_status failed = ''failed'' \<and>
      wl_processing_message failed = Val (trim (message e)) \<and> wl_retries failed = 0"
    by (rule a) (simp add: parse_flat_request)
  have "\<exists>failed.
      webhook_logs (snd (processWebhook None 0 ex_store (flat_request ''ORD-1'' ''SUCCESS'' ''T1'')))
        = webhook_logs ex_store @ [failed] \<and>
      wl_id failed = fresh_id (webhook_logs ex_store) \<and>
      wl_raw_payload failed = rq_body (flat_request ''ORD-1'' ''SUCCESS'' ''T1'') \<and>
      wl_processing_status failed = ''failed'' \<and>
      wl_processing_message failed =
        Val (trim (message (if (None :: controller option) = None then no_receiver else InvalidPayloadFormat))) \<and>
      wl_retries failed = 0"
    by (rule b) simp
  then have 2: "\<exists>failed.
      webhook_logs (snd (webhook_route 0 ex_store (flat_request ''ORD-1'' ''SUCCESS'' ''T1'')))
        = webhook_logs ex_store @ [failed] \<and>
      wl_raw_payload failed = rq_body (flat_request ''ORD-1'' ''SUCCESS'' ''T1'') \<and>
      wl_processing_status failed = ''failed'' \<and>
      wl_processing_message failed = Val (message no_receiver) \<and> wl_retries failed = 0"
    by (auto simp: webhook_route_def trim_messages)
  show ?thesis using 1 2 by (rule conjI)
qed




section \<open>Properties of the polling handlers, and the paths compared\<close>

lemma dbStatus_not_empty: "dbStatus r \<noteq> []"
  by (simp add: dbStatus_def)

lemma trim_dbStatus: "trim (dbStatus r) = dbStatus r"
  by (simp add: dbStatus_def trim_def is_space_def)

lemma mem_replace_first: "find P xs = Some e \<Longrightarrow> y \<in> set (replace_first P y xs)"
  by (induction xs) (auto split: if_splits)

lemma payment_order_amount:
  "payment_invalid_paths d = [] \<Longrightarrow> \<exists>n. ps_order_amount d = Val n \<and> 0 \<le> n"
  by (cases "ps_order_amount d") (auto simp: payment_invalid_paths_def split: if_splits)

lemma payment_valid_iff:
  "payment_invalid_paths d = [] \<longleftrightarrow>
     (\<exists>n. ps_order_amount d = Val n \<and> 0 \<le> n) \<and>
     (\<exists>n. ps_transaction_amount d = Val n \<and> 0 \<le> n) \<and>
     truthy_str (ps_payment_mode d) \<and> truthy_str (ps_status d) \<and>
     (\<forall>t. ps_payment_time d = Val t \<longrightarrow> valid_date t)"
  by (cases "ps_order_amount d"; cases "ps_transaction_amount d"; cases "ps_payment_time d")
     (auto simp: payment_invalid_paths_def)

lemma pre_save_fields [simp]:
  "ps_status (pre_save now loaded d) = ps_status d"
  "ps_collect_id (pre_save now loaded d) = ps_collect_id d"
  "ps_payment_message (pre_save now loaded d) = ps_payment_message d"
  by (simp_all add: pre_save_def)

text \<open>The document \<open>checkPaymentStatus\<close> saves.\<close>

lemma update_order_status_found:
  assumes f: "find (of_order oid) db = Some d"
  shows "\<exists>d2. ps_status d2 = Val (dbStatus (vs_status data)) \<and>
           ps_collect_id d2 = ps_collect_id d \<and>
           ps_order_amount d2 = ps_order_amount d \<and>
           ps_transaction_amount d2 = or_number (vs_amount data) (ps_order_amount d) \<and>
           ps_payment_mode d2 = ps_payment_mode d \<and>
           ps_payment_message d2 = Val (trim (''Payment '' @ interpolate (vs_status data))) \<and>
           (ps_payment_time d2 = ps_payment_time d \<or> ps_payment_time d2 = Val (DateNow now)) \<and>
           update_order_status now db oid data =
             (if payment_invalid_paths d2 = []
              then replace_first (of_order oid) (pre_save now d d2) db else db)"
proof (cases "dbStatus (vs_status data) = ''completed''")
  case True
  let ?d = "d\<lparr>ps_status := Val (trim (dbStatus (vs_status data))),
              ps_transaction_amount := or_number (vs_amount data) (ps_order_amount d),
              ps_payment_message := Val (trim (''Payment '' @ interpolate (vs_status data))),
              ps_payment_time := Val (DateNow now)\<rparr>"
  have "update_order_status now db oid data =
          (if payment_invalid_paths ?d = []
           then replace_first (of_order oid) (pre_save now d ?d) db else db)"
    using f True by (simp add: update_order_status_def Let_def split: list.splits)
  then show ?thesis by (intro exI [of _ ?d]) (simp add: trim_dbStatus)
next
  case False
  let ?d = "d\<lparr>ps_status := Val (trim (dbStatus (vs_status data))),
              ps_transaction_amount := or_number (vs_amount data) (ps_order_amount d),
              ps_payment_message := Val (trim (''Payment '' @ interpolate (vs_status data)))\<rparr>"
  have "update_order_status now db oid data =
          (if payment_invalid_paths ?d = []
           then replace_first (of_order oid) (pre_save now d ?d) db else db)"
    using f False by (simp add: update_order_status_def Let_def split: list.splits)
  then show ?thesis by (intro exI [of _ ?d]) (simp add: trim_dbStatus)
qed

lemma update_order_status_stored:
  assumes f: "find (of_order oid) db = Some d"
      and v: "payment_invalid_paths d = []"
      and a: "\<forall>m. vs_amount data = Val m \<longrightarrow> 0 \<le> m"
  shows "\<exists>d'. update_order_status now db oid data = replace_first (of_order oid) d' db \<and>
           find (of_order oid) (update_order_status now db oid data) = Some d' \<and>
           ps_status d' = Val (dbStatus (vs_status data)) \<and>
           ps_payment_message d' = Val (trim (''Payment '' @ interpolate (vs_status data)))"
proof -
  obtain d2 where d2: "ps_status d2 = Val (dbStatus (vs_status data))"
      "ps_collect_id d2 = ps_collect_id d" "ps_order_amount d2 = ps_order_amount d"
      "ps_transaction_amount d2 = or_number (vs_amount data) (ps_order_amount d)"
      "ps_payment_mode d2 = ps_payment_mode d"
      "ps_payment_message d2 = Val (trim (''Payment '' @ interpolate (vs_status data)))"
      "ps_payment_time d2 = ps_payment_time d \<or> ps_payment_time d2 = Val (DateNow now)"
    and u: "update_order_status now db oid data =
             (if payment_invalid_paths d2 = []
              then replace_first (of_order oid) (pre_save now d d2) db else db)"
    using update_order_status_found [OF f] by blast
  obtain n where n: "ps_order_amount d = Val n" "0 \<le> n"
    using v by (auto simp: payment_valid_iff)
  have t: "\<exists>k. or_number (vs_amount data) (ps_order_amount d) = Val k \<and> 0 \<le> k"
    using n a by (cases "vs_amount data") (simp_all add: or_number_def)
  have valid: "payment_invalid_paths d2 = []"
    unfolding payment_valid_iff
    using v d2 n t dbStatus_not_empty [of "vs_status data"]
    by (auto simp: payment_valid_iff)
  have P: "of_order oid (pre_save now d d2)"
    using find_Some_P [OF f] d2(2) by (simp add: of_order_def)
  have "find (of_order oid) (replace_first (of_order oid) (pre_save now d d2) db)
          = Some (pre_save now d d2)"
    using find_replace_first [OF f P] .
  then show ?thesis using u valid d2 by (intro exI [of _ "pre_save now d d2"]) simp
qed

lemma update_order_status_rejected:
  assumes f: "find (of_order oid) db = Some d"
      and m: "\<not> truthy_str (ps_payment_mode d)"
  shows "update_order_status now db oid data = db"
proof -
  obtain d2 where d2: "ps_payment_mode d2 = ps_payment_mode d"
    and u: "update_order_status now db oid data =
             (if payment_invalid_paths d2 = []
              then replace_first (of_order oid) (pre_save now d d2) db else db)"
    using update_order_status_found [OF f] by blast
  have "payment_invalid_paths d2 \<noteq> []"
    using m d2 by (simp add: payment_valid_iff)
  then show ?thesis using u by simp
qed

lemma ex_payment_valid: "payment_invalid_paths ex_payment_status = []"
  by (simp add: payment_invalid_paths_def ex_payment_status_def)

lemma of_order_ex: "of_order 7 ex_payment_status"
  by (simp add: of_order_def ex_payment_status_def)


lemma upsertStatus_saved:
  assumes up: "upsertStatus db oid sd = Inr (d, db')"
  shows "d \<in> set db' \<and> os_collect_id d = oid \<and>
         (\<exists>s. os_status d = Val s \<and> s \<in> set status_enum) \<and>
         (sd_status sd \<noteq> Undefined \<longrightarrow> os_status d = sd_status sd)"
proof (cases "truthy_str (sd_transaction_id sd) \<and>
              find (same_transaction oid (sd_transaction_id sd)) db \<noteq> None")
  case True
  then obtain e where t: "truthy_str (sd_transaction_id sd)"
    and f: "find (same_transaction oid (sd_transaction_id sd)) db = Some e" by auto
  have r: "accepted sd \<and> (\<exists>s. sd_status sd = Val s \<and> s \<in> set status_enum)"
    "d = assign e sd" "db' = replace_first (same_transaction oid (sd_transaction_id sd)) d db"
    using up upsertStatus_existing [OF t f] by (auto split: if_splits)
  have "os_collect_id e = oid" using find_Some_P [OF f] by (simp add: same_transaction_def)
  then show ?thesis
    using r mem_replace_first [OF f, of d] by (auto simp: assign_def)
next
  case False
  then have n: "\<not> truthy_str (sd_transaction_id sd) \<or>
      find (same_transaction oid (sd_transaction_id sd)) db = None" by auto
  have r: "accepted sd \<and>
      (sd_status sd = Undefined \<or> (\<exists>s. sd_status sd = Val s \<and> s \<in> set status_enum))"
    "d = new_OrderStatus oid sd" "db' = db @ [d]"
    using up upsertStatus_new [OF n] by (auto split: if_splits)
  then show ?thesis
    by (auto simp: new_OrderStatus_def status_enum_def)
qed

lemma upsertStatus_rejects_status:
  assumes "sd_status sd = Val s" and "s \<notin> set status_enum"
  shows "\<exists>e. upsertStatus db oid sd = Inl e"
proof (cases "upsertStatus db oid sd")
  case (Inl e)
  then show ?thesis by blast
next
  case (Inr p)
  then have "upsertStatus db oid sd = Inr (fst p, snd p)" by simp
  from upsertStatus_saved [OF this] assms show ?thesis by auto
qed

lemma upsertStatus_accepts:
  assumes "accepted sd" and "sd_status sd = Val s" and "s \<in> set status_enum"
  shows "\<exists>d db'. upsertStatus db oid sd = Inr (d, db')"
proof (cases "truthy_str (sd_transaction_id sd) \<and>
              find (same_transaction oid (sd_transaction_id sd)) db \<noteq> None")
  case True
  then obtain e where t: "truthy_str (sd_transaction_id sd)"
    and f: "find (same_transaction oid (sd_transaction_id sd)) db = Some e" by auto
  show ?thesis using upsertStatus_existing [OF t f] assms by simp
next
  case False
  then have n: "\<not> truthy_str (sd_transaction_id sd) \<or>
      find (same_transaction oid (sd_transaction_id sd)) db = None" by auto
  show ?thesis using upsertStatus_new [OF n] assms by simp
qed

text \<open>\<open>getTransactionStatus\<close> for an order the caller may see, with a collect request id,
  when the vendor answers.\<close>

lemma getTransactionStatus_answered:
  assumes "findByCustomOrderId (orders st) c = Some order"
      and "u_role caller = ''admin'' \<or> u_school_id caller = Val (o_school_id order)"
      and "truthy_str (o_collect_request_id order)"
  shows "getTransactionStatus now st c caller (VendorAnswered (Val v)) =
           (200, case upsertStatus (statuses st) (o_id order) (statusData_of_vendor now v order) of
                   Inl e \<Rightarrow> st
                 | Inr (saved, db) \<Rightarrow> st\<lparr>statuses := db\<rparr>)"
  using assms by (auto simp: getTransactionStatus_def)

lemma getTransactionStatus_stored:
  assumes f: "findByCustomOrderId (orders st) c = Some order"
      and au: "u_role caller = ''admin'' \<or> u_school_id caller = Val (o_school_id order)"
      and cr: "truthy_str (o_collect_request_id order)"
      and s: "vc_status v = Val s"
  shows "fst (getTransactionStatus now st c caller (VendorAnswered (Val v))) = 200"
    and "s \<notin> set status_enum \<Longrightarrow>
           snd (getTransactionStatus now st c caller (VendorAnswered (Val v))) = st"
    and "s \<in> set status_enum \<Longrightarrow> accepted (statusData_of_vendor now v order) \<Longrightarrow>
           \<exists>saved. saved \<in> set (statuses (snd (getTransactionStatus now st c caller (VendorAnswered (Val v))))) \<and>
             os_collect_id saved = o_id order \<and> os_status saved = Val s"
proof -
  note g = getTransactionStatus_answered [OF f au cr, of now v]
  have sd: "sd_status (statusData_of_vendor now v order) = Val s"
    using s by (simp add: statusData_of_vendor_def)
  show "fst (getTransactionStatus now st c caller (VendorAnswered (Val v))) = 200"
    by (simp add: g)
  show "snd (getTransactionStatus now st c caller (VendorAnswered (Val v))) = st"
    if "s \<notin> set status_enum"
    using upsertStatus_rejects_status [OF sd that, of "statuses st" "o_id order"]
    by (auto simp: g)
  show "\<exists>saved. saved \<in> set (statuses (snd (getTransactionStatus now st c caller (VendorAnswered (Val v))))) \<and>
             os_collect_id saved = o_id order \<and> os_status saved = Val s"
    if en: "s \<in> set status_enum" and ac: "accepted (statusData_of_vendor now v order)"
  proof -
    obtain d db' where u: "upsertStatus (statuses st) (o_id order) (statusData_of_vendor now v order)
        = Inr (d, db')"
      using upsertStatus_accepts [OF ac sd en] by blast
    from upsertStatus_saved [OF u] sd
    have "d \<in> set db'" "os_collect_id d = o_id order" "os_status d = Val s" by auto
    then show ?thesis using u by (intro exI [of _ d]) (simp add: g)
  qed
qed

lemma statusData_vendor_ex:
  "statusData_of_vendor now (ex_vendor_collect r) ex_order =
     \<lparr> sd_order_amount = Val 100, sd_transaction_amount = Val 100, sd_payment_mode = Val ''upi'',
       sd_payment_details = Undefined, sd_bank_reference = Undefined,
       sd_payment_message = Undefined, sd_status = Val r, sd_error_message = Undefined,
       sd_payment_time = Val (DateNow now), sd_transaction_id = Val ''T1'',
       sd_gateway = Val ''edviron'', sd_vendor_data = Val (FromVendor (ex_vendor_collect r)) \<rparr>"
  by (simp add: statusData_of_vendor_def ex_vendor_collect_def ex_order_def or_number_def
        or_string_def)

lemma upsert_vendor_ex:
  "upsertStatus [] 7 (statusData_of_vendor now (ex_vendor_collect r) ex_order) =
     (if r \<in> set status_enum
      then Inr (vendor_entry now r, [vendor_entry now r])
      else Inl (ValidationError ''OrderStatus'' [''status'']))"
proof -
  have n: "new_OrderStatus 7 (statusData_of_vendor now (ex_vendor_collect r) ex_order)
             = vendor_entry now r"
    unfolding statusData_vendor_ex by (simp add: new_OrderStatus_def vendor_entry_def)
  have v: "accepted (statusData_of_vendor now (ex_vendor_collect r) ex_order)"
    unfolding statusData_vendor_ex by (simp add: accepted_def)
  have s: "sd_status (statusData_of_vendor now (ex_vendor_collect r) ex_order) = Val r"
    unfolding statusData_vendor_ex by simp
  have i: "r \<notin> set status_enum \<Longrightarrow> invalid_paths (vendor_entry now r) = [''status'']"
    by (simp add: invalid_paths_def vendor_entry_def)
  show ?thesis
    by (subst upsertStatus_new) (simp_all add: n v s i)
qed

lemma getTransactionStatus_ex:
  "getTransactionStatus now ex_store ''ORD-1'' ex_admin (VendorAnswered (Val (ex_vendor_collect r))) =
     (200, if r \<in> set status_enum then ex_store\<lparr>statuses := [vendor_entry now r]\<rparr> else ex_store)"
proof -
  have f: "findByCustomOrderId (orders ex_store) ''ORD-1'' = Some ex_order"
    by (simp add: findByCustomOrderId_def ex_order_def trim_order_ids)
  have au: "u_role ex_admin = ''admin'' \<or> u_school_id ex_admin = Val (o_school_id ex_order)"
    by (simp add: ex_admin_def)
  have cr: "truthy_str (o_collect_request_id ex_order)"
    by (simp add: ex_order_def)
  show ?thesis
    by (simp add: getTransactionStatus_answered [OF f au cr] upsert_vendor_ex)
qed


text \<open>
  Claim C9, as stated, fails. An administrator polls the status of order \<open>ORD-1\<close> through
  \<open>getTransactionStatus\<close>. When the vendor answers with the status \<open>completed\<close>, a string
  the mapping takes to \<open>pending\<close>, the ledger entry stored has the status \<open>completed\<close>.
  When the vendor answers \<open>SUCCESS\<close>, nothing is stored, where the claim says the ledger
  status is \<open>completed\<close>.
\<close>

theorem getTransactionStatus_stores_status_unmapped:
  "dbStatus (Val ''completed'') = ''pending'' \<and>
   getTransactionStatus 0 ex_store ''ORD-1'' ex_admin (VendorAnswered (Val (ex_vendor_collect ''completed'')))
     = (200, ex_store\<lparr>statuses := [vendor_entry 0 ''completed'']\<rparr>) \<and>
   os_status (vendor_entry 0 ''completed'') = Val ''completed'' \<and>
   getTransactionStatus 0 ex_store ''ORD-1'' ex_admin (VendorAnswered (Val (ex_vendor_collect ''SUCCESS'')))
     = (200, ex_store)"
  by (simp add: getTransactionStatus_ex dbStatus_def status_enum_def vendor_entry_def)

text \<open>
  Claim C9, amended. In \<open>checkPaymentStatus\<close>, \<open>SUCCESS\<close> maps to \<open>completed\<close>, \<open>FAILED\<close>
  to \<open>failed\<close>, and every other value to \<open>pending\<close>; and that mapped status is what the
  handler stores: when the request names an order whose ledger document passes the
  validators of its schema and the vendor's amount is not negative, \<open>checkPaymentStatus\<close>
  answers, keeps the number of documents, and the order's first document has the mapped
  status afterwards; a document without a payment mode is rejected by \<open>save()\<close> and the
  ledger stays as it was. The other polling handler, \<open>getTransactionStatus\<close>, applies no
  mapping: it stores the vendor's status as it is when that is a value of the enumeration
  and the rest of the observation passes the validators, and stores nothing when it is
  another string.
\<close>

theorem polling_status_mapping:
  "dbStatus (Val ''SUCCESS'') = ''completed'' \<and>
   dbStatus (Val ''FAILED'') = ''failed'' \<and>
   (r \<noteq> Val ''SUCCESS'' \<and> r \<noteq> Val ''FAILED'' \<longrightarrow> dbStatus r = ''pending'') \<and>
   (truthy_str collect_request_id \<and> truthy_str school_id \<and>
    find (of_order oid) db = Some d \<and> payment_invalid_paths d = [] \<and>
    (\<forall>m. vs_amount data = Val m \<longrightarrow> 0 \<le> m) \<longrightarrow>
      (\<exists>rsp db' d'.
         checkPaymentStatus now db collect_request_id (Val oid) school_id (Succeeded data)
           = (Inr rsp, db') \<and>
         length db' = length db \<and>
         find (of_order oid) db' = Some d' \<and>
         ps_status d' = Val (dbStatus (vs_status data)))) \<and>
   (truthy_str collect_request_id \<and> truthy_str school_id \<and>
    find (of_order oid) db = Some d \<and> \<not> truthy_str (ps_payment_mode d) \<longrightarrow>
      snd (checkPaymentStatus now db collect_request_id (Val oid) school_id (Succeeded data)) = db) \<and>
   (findByCustomOrderId (orders st) c = Some order \<and>
    (u_role caller = ''admin'' \<or> u_school_id caller = Val (o_school_id order)) \<and>
    truthy_str (o_collect_request_id order) \<and> vc_status v = Val s \<longrightarrow>
      fst (getTransactionStatus now st c caller (VendorAnswered (Val v))) = 200 \<and>
      (s \<notin> set status_enum \<longrightarrow>
         snd (getTransactionStatus now st c caller (VendorAnswered (Val v))) = st) \<and>
      (s \<in> set status_enum \<and> accepted (statusData_of_vendor now v order) \<longrightarrow>
         (\<exists>saved.
            saved \<in> set (statuses (snd (getTransactionStatus now st c caller (VendorAnswered (Val v))))) \<and>
            os_collect_id saved = o_id order \<and> os_status saved = Val s)))"
proof (intro conjI impI)
  assume h: "truthy_str collect_request_id \<and> truthy_str school_id \<and>
    find (of_order oid) db = Some d \<and> payment_invalid_paths d = [] \<and>
    (\<forall>m. vs_amount data = Val m \<longrightarrow> 0 \<le> m)"
  then obtain d' where
    "update_order_status now db oid data = replace_first (of_order oid) d' db"
    "find (of_order oid) (update_order_status now db oid data) = Some d'"
    "ps_status d' = Val (dbStatus (vs_status data))"
    using update_order_status_stored [of oid db d data now] by blast
  then show "\<exists>rsp db' d'.
         checkPaymentStatus now db collect_request_id (Val oid) school_id (Succeeded data)
           = (Inr rsp, db') \<and>
         length db' = length db \<and>
         find (of_order oid) db' = Some d' \<and>
         ps_status d' = Val (dbStatus (vs_status data))"
    using h by (simp add: checkPaymentStatus_def length_replace_first)
next
  assume "truthy_str collect_request_id \<and> truthy_str school_id \<and>
    find (of_order oid) db = Some d \<and> \<not> truthy_str (ps_payment_mode d)"
  then show "snd (checkPaymentStatus now db collect_request_id (Val oid) school_id
                    (Succeeded data)) = db"
    using update_order_status_rejected [of oid db d now data]
    by (simp add: checkPaymentStatus_def)
next
  assume h: "findByCustomOrderId (orders st) c = Some order \<and>
    (u_role caller = ''admin'' \<or> u_school_id caller = Val (o_school_id order)) \<and>
    truthy_str (o_collect_request_id order) \<and> vc_status v = Val s"
  then have f: "findByCustomOrderId (orders st) c = Some order"
    and au: "u_role caller = ''admin'' \<or> u_school_id caller = Val (o_school_id order)"
    and cr: "truthy_str (o_collect_request_id order)" and s: "vc_status v = Val s"
    by simp_all
  show "fst (getTransactionStatus now st c caller (VendorAnswered (Val v))) = 200"
    by (rule getTransactionStatus_stored(1) [OF f au cr s])
  show "snd (getTransactionStatus now st c caller (VendorAnswered (Val v))) = st"
    if "s \<notin> set status_enum"
    using that by (rule getTransactionStatus_stored(2) [OF f au cr s])
  show "\<exists>saved.
          saved \<in> set (statuses (snd (getTransactionStatus now st c caller (VendorAnswered (Val v))))) \<and>
          os_collect_id saved = o_id order \<and> os_status saved = Val s"
    if "s \<in> set status_enum \<and> accepted (statusData_of_vendor now v order)"
    using that getTransactionStatus_stored(3) [OF f au cr s] by blast
qed (simp_all add: dbStatus_def)

text \<open>Claim C9, amended: the theorem at the unrecognised string \<open>USER_DROPPED\<close>, at a poll
  of order 7 through \<open>checkPaymentStatus\<close> that the vendor answers with \<open>SUCCESS\<close>, with
  the ledger document as the payment controller created it and with one that has lost its
  payment mode, and at a poll of \<open>ORD-1\<close> through \<open>getTransactionStatus\<close> that the vendor
  answers with \<open>failed\<close>.\<close>

theorem polling_status_mapping_witness:
  "dbStatus (Val ''USER_DROPPED'') = ''pending'' \<and>
   (\<exists>rsp db' d'.
      checkPaymentStatus 0 [ex_payment_status] (Val ''CRQ123'') (Val 7) (Val ''SCH001'')
          (Succeeded (ex_vendor_status ''SUCCESS'')) = (Inr rsp, db') \<and>
      length db' = length [ex_payment_status] \<and>
      find (of_order 7) db' = Some d' \<and> ps_status d' = Val ''completed'') \<and>
   snd (checkPaymentStatus 0 [ex_payment_status\<lparr>ps_payment_mode := Undefined\<rparr>] (Val ''CRQ123'')
          (Val 7) (Val ''SCH001'') (Succeeded (ex_vendor_status ''SUCCESS'')))
     = [ex_payment_status\<lparr>ps_payment_mode := Undefined\<rparr>] \<and>
   (\<exists>saved.
      saved \<in> set (statuses (snd (getTransactionStatus 0 ex_store ''ORD-1'' ex_admin
                                    (VendorAnswered (Val (ex_vendor_collect ''failed'')))))) \<and>
      os_collect_id saved = o_id ex_order \<and> os_status saved = Val ''failed'')"
proof -
  note t = polling_status_mapping
    [where r = "Val ''USER_DROPPED''" and collect_request_id = "Val ''CRQ123''"
       and school_id = "Val ''SCH001''" and oid = 7 and data = "ex_vendor_status ''SUCCESS''"
       and now = 0 and st = ex_store and c = "''ORD-1''" and order = ex_order
       and caller = ex_admin and v = "ex_vendor_collect ''failed''" and s = "''failed''"]
  have 1: "dbStatus (Val ''USER_DROPPED'') = ''pending''"
    by (rule t [THEN conjunct2, THEN conjunct2, THEN conjunct1, THEN mp]) simp
  have 2: "\<exists>rsp db' d'.
      checkPaymentStatus 0 [ex_payment_status] (Val ''CRQ123'') (Val 7) (Val ''SCH001'')
          (Succeeded (ex_vendor_status ''SUCCESS'')) = (Inr rsp, db') \<and>
      length db' = length [ex_payment_status] \<and>
      find (of_order 7) db' = Some d' \<and>
      ps_status d' = Val (dbStatus (vs_status (ex_vendor_status ''SUCCESS'')))"
    by (rule t [where db = "[ex_payment_status]" and d = ex_payment_status,
                THEN conjunct2, THEN conjunct2, THEN conjunct2, THEN conjunct1, THEN mp])
       (simp add: of_order_ex ex_vendor_status_def ex_payment_valid)
  have 3: "dbStatus (vs_status (ex_vendor_status ''SUCCESS'')) = ''completed''"
    by (simp add: ex_vendor_status_def dbStatus_def)
  have 4: "snd (checkPaymentStatus 0 [ex_payment_status\<lparr>ps_payment_mode := Undefined\<rparr>]
                  (Val ''CRQ123'') (Val 7) (Val ''SCH001'') (Succeeded (ex_vendor_status ''SUCCESS'')))
     = [ex_payment_status\<lparr>ps_payment_mode := Undefined\<rparr>]"
    by (rule t [where db = "[ex_payment_status\<lparr>ps_payment_mode := Undefined\<rparr>]"
                  and d = "ex_payment_status\<lparr>ps_payment_mode := Undefined\<rparr>",
                THEN conjunct2, THEN conjunct2, THEN conjunct2, THEN conjunct2, THEN conjunct1,
                THEN mp])
       (simp add: of_order_def ex_payment_status_def)
  have 5: "fst (getTransactionStatus 0 ex_store ''ORD-1'' ex_admin
                  (VendorAnswered (Val (ex_vendor_collect ''failed'')))) = 200 \<and>
      (''failed'' \<notin> set status_enum \<longrightarrow>
         snd (getTransactionStatus 0 ex_store ''ORD-1'' ex_admin
                (VendorAnswered (Val (ex_vendor_collect ''failed'')))) = ex_store) \<and>
      (''failed'' \<in> set status_enum \<and>
       accepted (statusData_of_vendor 0 (ex_vendor_collect ''failed'') ex_order) \<longrightarrow>
         (\<exists>saved.
            saved \<in> set (statuses (snd (getTransactionStatus 0 ex_store ''ORD-1'' ex_admin
                                          (VendorAnswered (Val (ex_vendor_collect ''failed'')))))) \<and>
            os_collect_id saved = o_id ex_order \<and> os_status saved = Val ''failed''))"
    by (rule t [THEN conjunct2, THEN conjunct2, THEN conjunct2, THEN conjunct2, THEN conjunct2,
                THEN mp])
       (simp add: findByCustomOrderId_def ex_order_def trim_order_ids ex_admin_def
          ex_vendor_collect_def)
  have 6: "''failed'' \<in> set status_enum \<and>
       accepted (statusData_of_vendor 0 (ex_vendor_collect ''failed'') ex_order)"
    unfolding statusData_vendor_ex by (simp add: status_enum_def accepted_def)
  from 5 6 have 7: "\<exists>saved.
      saved \<in> set (statuses (snd (getTransactionStatus 0 ex_store ''ORD-1'' ex_admin
                                    (VendorAnswered (Val (ex_vendor_collect ''failed'')))))) \<and>
      os_collect_id saved = o_id ex_order \<and> os_status saved = Val ''failed''"
    by blast
  show ?thesis using 1 2 4 7 unfolding 3 by (intro conjI)
qed





end
